theory Spec2Isabelle
  imports Main "HOL-Library.Sublist"
begin

section \<open>JavaScript strings\<close>

text \<open>
  A JavaScript string is modelled as a \<^typ>\<open>string\<close>. The program only searches for and
  splices ASCII text, so a list of characters behaves as the sequence of code units does.
\<close>

text \<open>\<^verbatim>\<open>s.includes(pat)\<close>: \<open>pat\<close> occurs somewhere in \<open>s\<close>.\<close>

fun includesStr :: "string \<Rightarrow> string \<Rightarrow> bool" where
  "includesStr [] pat = (pat = [])"
| "includesStr (c # cs) pat = (prefix pat (c # cs) \<or> includesStr cs pat)"

text \<open>\<^verbatim>\<open>s.endsWith(suf)\<close>.\<close>

definition endsWith :: "string \<Rightarrow> string \<Rightarrow> bool" where
  "endsWith s suf = suffix suf s"

text \<open>
  The first occurrence of a pattern: the text before it and the text after it, or
  \<open>None\<close> when the pattern does not occur.
\<close>

fun splitFirst :: "string \<Rightarrow> string \<Rightarrow> (string \<times> string) option" where
  "splitFirst [] pat = (if pat = [] then Some ([], []) else None)"
| "splitFirst (c # cs) pat =
     (if prefix pat (c # cs) then Some ([], drop (length pat) (c # cs))
      else (case splitFirst cs pat of
              None \<Rightarrow> None
            | Some (front, back) \<Rightarrow> Some (c # front, back)))"

text \<open>
  The replacement text of \<^verbatim>\<open>String.prototype.replace\<close> is not taken literally:
  \<^verbatim>\<open>$$\<close> stands for a dollar sign, \<^verbatim>\<open>$&\<close> for the matched text, \<^verbatim>\<open>$`\<close> for the text
  before the match and \<^verbatim>\<open>$'\<close> for the text after it. The patterns of this program
  have no capture groups, so \<^verbatim>\<open>$1\<close> and the like stay as they are.
\<close>

fun getSubstitution :: "string \<Rightarrow> string \<Rightarrow> string \<Rightarrow> string \<Rightarrow> string" where
  "getSubstitution matched front back (c # d # rest) =
     (if c = CHR ''$'' \<and> d = CHR ''$'' then CHR ''$'' # getSubstitution matched front back rest
      else if c = CHR ''$'' \<and> d = CHR ''&'' then matched @ getSubstitution matched front back rest
      else if c = CHR ''$'' \<and> d = CHR 0x60 then front @ getSubstitution matched front back rest
      else if c = CHR ''$'' \<and> d = CHR 0x27 then back @ getSubstitution matched front back rest
      else c # getSubstitution matched front back (d # rest))"
| "getSubstitution matched front back rest = rest"

text \<open>\<^verbatim>\<open>s.replace(pat, repl)\<close> with a string pattern: the first occurrence only.\<close>

definition replaceFirst :: "string \<Rightarrow> string \<Rightarrow> string \<Rightarrow> string" where
  "replaceFirst s pat repl =
     (case splitFirst s pat of
        None \<Rightarrow> s
      | Some (front, back) \<Rightarrow> front @ getSubstitution pat front back repl @ back)"

text \<open>\<^verbatim>\<open>s.replace(/suf$/, '')\<close> for a literal \<open>suf\<close>: drop it when the string ends with it.\<close>

definition removeSuffix :: "string \<Rightarrow> string \<Rightarrow> string" where
  "removeSuffix s suf = (if suffix suf s then take (length s - length suf) s else s)"

text \<open>
  \<^verbatim>\<open>s.replace(/pat/g, repl)\<close> for a literal \<open>pat\<close>: every occurrence, left to right.
  \<open>consumed\<close> is the part of the original string already passed, which \<^verbatim>\<open>$`\<close> can
  refer to.
\<close>

fun replaceAllFrom :: "string \<Rightarrow> string \<Rightarrow> string \<Rightarrow> string \<Rightarrow> string" where
  "replaceAllFrom consumed [] pat repl = []"
| "replaceAllFrom consumed (c # cs) pat repl =
     (if pat \<noteq> [] \<and> prefix pat (c # cs)
      then getSubstitution pat consumed (drop (length pat) (c # cs)) repl
           @ replaceAllFrom (consumed @ pat) (drop (length pat) (c # cs)) pat repl
      else c # replaceAllFrom (consumed @ [c]) cs pat repl)"

definition replaceAll :: "string \<Rightarrow> string \<Rightarrow> string \<Rightarrow> string" where
  "replaceAll s pat repl = replaceAllFrom [] s pat repl"

text \<open>\<^verbatim>\<open>s.toUpperCase()\<close> on the ASCII letters.\<close>

definition toUpperChar :: "char \<Rightarrow> char" where
  "toUpperChar c =
     (let n = (of_char c :: nat) in if 97 \<le> n \<and> n \<le> 122 then char_of (n - 32) else c)"

definition toUpperCase :: "string \<Rightarrow> string" where
  "toUpperCase s = map toUpperChar s"

text \<open>\<^verbatim>\<open>s.trim()\<close>: white space off both ends.\<close>

definition isWhiteSpace :: "char \<Rightarrow> bool" where
  "isWhiteSpace c = (let n = (of_char c :: nat) in n = 32 \<or> (9 \<le> n \<and> n \<le> 13))"

definition trim :: "string \<Rightarrow> string" where
  "trim s = rev (dropWhile isWhiteSpace (rev (dropWhile isWhiteSpace s)))"

text \<open>
  \<^verbatim>\<open>parseInt(s)\<close> with no radix: white space and a sign are skipped, a \<^verbatim>\<open>0x\<close> or \<^verbatim>\<open>0X\<close>
  that follows selects base sixteen, the digits of the base that follow are read, and
  there is no number (\<^verbatim>\<open>NaN\<close>) when no digit follows.
\<close>

definition isDigit :: "char \<Rightarrow> bool" where
  "isDigit c = (let n = (of_char c :: nat) in 48 \<le> n \<and> n \<le> 57)"

definition digitsValue :: "string \<Rightarrow> nat" where
  "digitsValue ds = foldl (\<lambda>acc d. acc * 10 + (of_char d - 48)) 0 ds"

definition isHexDigit :: "char \<Rightarrow> bool" where
  "isHexDigit c =
     (let n = (of_char c :: nat)
      in (48 \<le> n \<and> n \<le> 57) \<or> (65 \<le> n \<and> n \<le> 70) \<or> (97 \<le> n \<and> n \<le> 102))"

definition hexDigitValue :: "char \<Rightarrow> nat" where
  "hexDigitValue c =
     (let n = (of_char c :: nat)
      in if n \<le> 57 then n - 48 else if n \<le> 70 then n - 55 else n - 87)"

definition hexDigitsValue :: "string \<Rightarrow> nat" where
  "hexDigitsValue ds = foldl (\<lambda>acc d. acc * 16 + hexDigitValue d) 0 ds"

definition parseInt :: "string \<Rightarrow> int option" where
  "parseInt s =
     (let t = dropWhile isWhiteSpace s;
          negative = (t \<noteq> [] \<and> hd t = CHR ''-'');
          u = (if t \<noteq> [] \<and> (hd t = CHR ''-'' \<or> hd t = CHR ''+'') then tl t else t);
          hex = (take 2 u = ''0x'' \<or> take 2 u = ''0X'');
          ds = (if hex then takeWhile isHexDigit (drop 2 u) else takeWhile isDigit u);
          magnitude = (if hex then hexDigitsValue ds else digitsValue ds)
      in if ds = [] then None
         else Some (if negative then - int magnitude else int magnitude))"

text \<open>\<^verbatim>\<open>s.split(sep)\<close> at a character, and \<^verbatim>\<open>parts.join(sep)\<close>.\<close>

fun splitOn :: "char \<Rightarrow> string \<Rightarrow> string list" where
  "splitOn sep [] = [[]]"
| "splitOn sep (c # cs) =
     (if c = sep then [] # splitOn sep cs
      else (case splitOn sep cs of
              [] \<Rightarrow> [[c]]
            | seg # segs \<Rightarrow> (c # seg) # segs))"

fun joinWith :: "string \<Rightarrow> string list \<Rightarrow> string" where
  "joinWith sep [] = []"
| "joinWith sep [s] = s"
| "joinWith sep (s # t # ss) = s @ sep @ joinWith sep (t # ss)"

abbreviation dq :: char where
  "dq \<equiv> CHR 0x22"

section \<open>Errors\<close>

text \<open>
  Every \<^verbatim>\<open>throw\<close> of the program and of the Node functions it calls is a value: a
  file-system error with its code and path, a \<^verbatim>\<open>TypeError\<close>, or a plain \<^verbatim>\<open>Error\<close>
  with its message.
\<close>

datatype error =
    FsError string string
  | TypeError string
  | Error string

type_synonym 'a result = "error + 'a"

section \<open>The file system\<close>

text \<open>
  The file system is a tree: a regular file with its content, or a directory with its
  entries in the order the operating system lists them. A location is the list of names
  from the root down.
\<close>

datatype fsnode = File string | Dir "(string \<times> fsnode) list"

fun lookup :: "fsnode \<Rightarrow> string list \<Rightarrow> fsnode option" where
  "lookup n [] = Some n"
| "lookup (File content) (s # ss) = None"
| "lookup (Dir entries) (s # ss) =
     (case map_of entries s of None \<Rightarrow> None | Some child \<Rightarrow> lookup child ss)"

text \<open>Replace the value of an existing name in place, or add the name at the end.\<close>

fun upsert :: "string \<Rightarrow> 'v \<Rightarrow> (string \<times> 'v) list \<Rightarrow> (string \<times> 'v) list" where
  "upsert k v [] = [(k, v)]"
| "upsert k v ((k', v') # kvs) = (if k' = k then (k, v) # kvs else (k', v') # upsert k v kvs)"

text \<open>
  \<^verbatim>\<open>mkdir\<close> without the recursive option creates one directory: the parent must be there
  (\<^verbatim>\<open>ENOENT\<close> otherwise) and the name must be free (\<^verbatim>\<open>EEXIST\<close>).
\<close>

fun mkdirAt :: "string \<Rightarrow> fsnode \<Rightarrow> string list \<Rightarrow> fsnode result" where
  "mkdirAt p n [] = Inl (FsError ''EEXIST'' p)"
| "mkdirAt p (File content) (s # ss) = Inl (FsError ''ENOTDIR'' p)"
| "mkdirAt p (Dir entries) [s] =
     (case map_of entries s of
        Some child \<Rightarrow> Inl (FsError ''EEXIST'' p)
      | None \<Rightarrow> Inr (Dir (entries @ [(s, Dir [])])))"
| "mkdirAt p (Dir entries) (s # t # ss) =
     (case map_of entries s of
        None \<Rightarrow> Inl (FsError ''ENOENT'' p)
      | Some child \<Rightarrow>
          (case mkdirAt p child (t # ss) of
             Inl e \<Rightarrow> Inl e
           | Inr child' \<Rightarrow> Inr (Dir (upsert s child' entries))))"

text \<open>Writing a file with flag \<^verbatim>\<open>w\<close> creates it or replaces its content.\<close>

fun writeAt :: "string \<Rightarrow> string \<Rightarrow> fsnode \<Rightarrow> string list \<Rightarrow> fsnode result" where
  "writeAt p content n [] = Inl (FsError ''EISDIR'' p)"
| "writeAt p content (File old) (s # ss) = Inl (FsError ''ENOTDIR'' p)"
| "writeAt p content (Dir entries) [s] =
     (case map_of entries s of
        Some (Dir sub) \<Rightarrow> Inl (FsError ''EISDIR'' p)
      | _ \<Rightarrow> Inr (Dir (upsert s (File content) entries)))"
| "writeAt p content (Dir entries) (s # t # ss) =
     (case map_of entries s of
        None \<Rightarrow> Inl (FsError ''ENOENT'' p)
      | Some child \<Rightarrow>
          (case writeAt p content child (t # ss) of
             Inl e \<Rightarrow> Inl e
           | Inr child' \<Rightarrow> Inr (Dir (upsert s child' entries))))"

text \<open>Reading a file.\<close>

definition readAt :: "string \<Rightarrow> fsnode \<Rightarrow> string list \<Rightarrow> string result" where
  "readAt p n loc =
     (case lookup n loc of
        None \<Rightarrow> Inl (FsError ''ENOENT'' p)
      | Some (Dir entries) \<Rightarrow> Inl (FsError ''EISDIR'' p)
      | Some (File content) \<Rightarrow> Inr content)"

text \<open>
  \<^verbatim>\<open>rm\<close> with the recursive and force options: the entry goes with all below it, and a
  missing entry is not an error.
\<close>

fun removeAt :: "fsnode \<Rightarrow> string list \<Rightarrow> fsnode" where
  "removeAt n [] = n"
| "removeAt (File content) (s # ss) = File content"
| "removeAt (Dir entries) [s] = Dir (filter (\<lambda>entry. fst entry \<noteq> s) entries)"
| "removeAt (Dir entries) (s # t # ss) =
     (case map_of entries s of
        None \<Rightarrow> Dir entries
      | Some child \<Rightarrow> Dir (upsert s (removeAt child (t # ss)) entries))"

section \<open>The semver package\<close>

text \<open>
  A parsed version: the three numbers, the prerelease identifiers (numeric ones as
  numbers) and the build identifiers.
\<close>

datatype ident = Numeric nat | Alphanumeric string

record sem_ver =
  major :: nat
  minor :: nat
  patch :: nat
  prerelease :: "ident list"
  build :: "string list"

text \<open>
  The functions of the \<^verbatim>\<open>semver\<close> package that the program calls. \<^verbatim>\<open>valid\<close>,
  \<^verbatim>\<open>validRange\<close> and \<^verbatim>\<open>parse\<close> return \<^verbatim>\<open>null\<close> for what they do not accept,
  \<^verbatim>\<open>compareBuild\<close> throws on an invalid version, \<^verbatim>\<open>satisfies\<close> returns false.
\<close>

record semver_lib =
  svValid :: "string \<Rightarrow> string option"
  svValidRange :: "string \<Rightarrow> string option"
  svParse :: "string \<Rightarrow> sem_ver option"
  svCompareBuild :: "string \<Rightarrow> string \<Rightarrow> int result"
  svSatisfies :: "string \<Rightarrow> string \<Rightarrow> bool"

section \<open>The host and the state of a run\<close>

text \<open>How a process ends, which is also what \<^verbatim>\<open>exec.getExecOutput\<close> resolves to.\<close>

record exec_output =
  exitCode :: int
  stdout :: string
  stderr :: string

text \<open>What \<^verbatim>\<open>os.userInfo()\<close> returns; the shell is \<^verbatim>\<open>null\<close> where there is none.\<close>

record user_info =
  username :: string
  shell :: "string option"

text \<open>The outward actions of a run, in the order they happen.\<close>

datatype event =
    Executed string
  | ReleaseLookup string
  | ArchiveDownload string

datatype output_value = Text string | ExecResult exec_output

text \<open>
  The state a run reads and changes: the process environment (in enumeration order),
  the file system, the outputs published with \<^verbatim>\<open>core.setOutput\<close> and the outward
  actions taken so far.
\<close>

record world =
  env :: "(string \<times> string) list"
  root :: fsnode
  outputs :: "(string \<times> output_value) list"
  events :: "event list"

text \<open>setup-jdk-base-installer.ts: the fields of \<^verbatim>\<open>JdkInstallationBase\<close> and its interfaces.\<close>

record installer =
  distributionName :: string
  jdkVersion :: string
  systemArchitecture :: string
  distributionType :: string
  isStableRelease :: bool
  shouldCheckLatest :: bool

record jdk_setup_result =
  version :: string
  path :: string

record cache_entry = jdk_setup_result +
  stable :: bool

record jdk_release_info =
  releaseVersion :: string
  url :: string

text \<open>The two abstract methods, which a distribution implements over the network.\<close>

record jdk_provider =
  locateReleaseForVersion :: "installer \<Rightarrow> world \<Rightarrow> string \<Rightarrow> (jdk_release_info \<times> world) result"
  fetchJdkArchive :: "installer \<Rightarrow> world \<Rightarrow> jdk_release_info \<Rightarrow> (jdk_setup_result \<times> world) result"

text \<open>
  What the run is given and cannot change: the platform, the action's inputs as
  \<^verbatim>\<open>core.getInput\<close> returns them (trimmed, empty when absent), the functions of Node's
  \<^verbatim>\<open>path\<close> module, the location a path string denotes, the user database
  (\<^verbatim>\<open>os.userInfo()\<close> throws when it is \<open>None\<close>), the \<^verbatim>\<open>semver\<close> package, whether the
  subscription service answers 403, the tool cache and the downloads of
  \<^verbatim>\<open>@actions/tool-cache\<close>, the Corretto provider, the program that a command line
  starts (its first argument, as \<^verbatim>\<open>io.which\<close> finds it), and how the process of a
  command ends when it is started after the actions taken so far: with an exit code and
  what it printed, or not at all when it cannot be started.
\<close>

record host =
  platform :: string
  arch :: string
  cwd :: string
  getInput :: "string \<Rightarrow> string"
  pathNormalize :: "string \<Rightarrow> string"
  pathJoin :: "string list \<Rightarrow> string"
  pathResolve :: "string list \<Rightarrow> string"
  pathDirname :: "string \<Rightarrow> string"
  pathDelimiter :: string
  locate :: "string \<Rightarrow> string list"
  userInfo :: "user_info option"
  semver :: semver_lib
  subscriptionDenied :: bool
  findAllVersions :: "world \<Rightarrow> string \<Rightarrow> string \<Rightarrow> string list result"
  downloadTool :: "world \<Rightarrow> string \<Rightarrow> (string \<times> world) result"
  extractZip :: "world \<Rightarrow> string \<Rightarrow> string \<Rightarrow> (string \<times> world) result"
  corretto :: jdk_provider
  toolOf :: "string \<Rightarrow> string"
  spawn :: "event list \<Rightarrow> string \<Rightarrow> exec_output result"

definition existsSync :: "host \<Rightarrow> world \<Rightarrow> string \<Rightarrow> bool" where
  "existsSync h w p = (p \<noteq> [] \<and> lookup (root w) (locate h p) \<noteq> None)"

definition mkdirSync :: "host \<Rightarrow> world \<Rightarrow> string \<Rightarrow> world result" where
  "mkdirSync h w p =
     (case mkdirAt p (root w) (locate h p) of
        Inl e \<Rightarrow> Inl e
      | Inr r \<Rightarrow> Inr (w\<lparr>root := r\<rparr>))"

definition writeFileSync :: "host \<Rightarrow> world \<Rightarrow> string \<Rightarrow> string \<Rightarrow> world result" where
  "writeFileSync h w p content =
     (case writeAt p content (root w) (locate h p) of
        Inl e \<Rightarrow> Inl e
      | Inr r \<Rightarrow> Inr (w\<lparr>root := r\<rparr>))"

definition readdirSync :: "host \<Rightarrow> world \<Rightarrow> string \<Rightarrow> string list result" where
  "readdirSync h w p =
     (case lookup (root w) (locate h p) of
        None \<Rightarrow> Inl (FsError ''ENOENT'' p)
      | Some (File content) \<Rightarrow> Inl (FsError ''ENOTDIR'' p)
      | Some (Dir entries) \<Rightarrow> Inr (map fst entries))"

definition readFileSync :: "host \<Rightarrow> world \<Rightarrow> string \<Rightarrow> string result" where
  "readFileSync h w p = readAt p (root w) (locate h p)"

definition rmSync :: "host \<Rightarrow> world \<Rightarrow> string \<Rightarrow> world" where
  "rmSync h w p = w\<lparr>root := removeAt (root w) (locate h p)\<rparr>"

section \<open>The functions of @actions/exec\<close>

text \<open>A number in decimal, as a template literal prints it.\<close>

fun showNat :: "nat \<Rightarrow> string" where
  "showNat n =
     (if n < 10 then [char_of (48 + n)] else showNat (n div 10) @ [char_of (48 + n mod 10)])"

definition showInt :: "int \<Rightarrow> string" where
  "showInt i = (if i < 0 then ''-'' @ showNat (nat (- i)) else showNat (nat i))"

text \<open>
  \<^verbatim>\<open>exec.getExecOutput(commandLine, [], options)\<close>. The program passes no
  \<^verbatim>\<open>ignoreReturnCode\<close> option, so the promise resolves only for a process that ends with
  exit code 0 and is rejected for every other exit code, whatever the process printed.
\<close>

definition getExecOutput :: "host \<Rightarrow> event list \<Rightarrow> string \<Rightarrow> exec_output result" where
  "getExecOutput h history commandLine =
     (case spawn h history commandLine of
        Inl e \<Rightarrow> Inl e
      | Inr ended \<Rightarrow>
          if exitCode ended \<noteq> 0
          then Inl (Error (''The process '' @ [CHR 0x27] @ toolOf h commandLine @ [CHR 0x27]
                           @ '' failed with exit code '' @ showInt (exitCode ended)))
          else Inr ended)"

section \<open>The functions of @actions/core\<close>

text \<open>Log lines (\<^verbatim>\<open>core.info\<close>, \<^verbatim>\<open>core.debug\<close>) change nothing and are left out.\<close>

definition exportVariable :: "world \<Rightarrow> string \<Rightarrow> string \<Rightarrow> world" where
  "exportVariable w name val = w\<lparr>env := upsert name val (env w)\<rparr>"

definition addPath :: "host \<Rightarrow> world \<Rightarrow> string \<Rightarrow> world" where
  "addPath h w inputPath =
     w\<lparr>env := upsert ''PATH''
           (inputPath @ pathDelimiter h
            @ (case map_of (env w) ''PATH'' of None \<Rightarrow> ''undefined'' | Some old \<Rightarrow> old))
           (env w)\<rparr>"

definition setOutput :: "world \<Rightarrow> string \<Rightarrow> output_value \<Rightarrow> world" where
  "setOutput w name val = w\<lparr>outputs := outputs w @ [(name, val)]\<rparr>"

definition getBooleanInput :: "host \<Rightarrow> string \<Rightarrow> bool result" where
  "getBooleanInput h name =
     (let val = getInput h name in
      if val \<in> set [''true'', ''True'', ''TRUE''] then Inr True
      else if val \<in> set [''false'', ''False'', ''FALSE''] then Inr False
      else Inl (TypeError (''Input does not meet YAML 1.2 Core Schema specification: '' @ name)))"

text \<open>The text of a caught error, as \<^verbatim>\<open>error.message\<close> gives it.\<close>

fun message :: "error \<Rightarrow> string" where
  "message (FsError code p) = code @ '': '' @ p"
| "message (TypeError msg) = msg"
| "message (Error msg) = msg"

section \<open>constants.ts and config.ts\<close>

text \<open>
  The string constants (\<^verbatim>\<open>INPUT_KEYS\<close>, \<^verbatim>\<open>OPERATIONS\<close>, \<^verbatim>\<open>OS_PLATFORM\<close>,
  \<^verbatim>\<open>SIGN_METHOD\<close>, \<^verbatim>\<open>ENV_CONFIG\<close>) are written as their values where they are used.
\<close>

definition COMMAND_PARAMETERS :: "string \<Rightarrow> string list option" where
  "COMMAND_PARAMETERS = map_of
     [(''sign'', [''username'', ''password'', ''credential_id'', ''totp_secret'', ''program_name'',
                  ''file_path'', ''output_path'', ''malware_block'', ''override'']),
      (''batch_sign'', [''username'', ''password'', ''credential_id'', ''totp_secret'',
                        ''program_name'', ''dir_path'', ''output_path'']),
      (''scan_code'', [''username'', ''password'', ''credential_id'', ''program_name''])]"

definition JAVA_MAC_PATH_SUFFIX :: string where
  "JAVA_MAC_PATH_SUFFIX = ''Contents/Home''"

definition SIGNING_TOOL_DIR :: string where
  "SIGNING_TOOL_DIR = ''CodeSignTool-v1.3.0''"

definition PLATFORM_DOWNLOAD_URLS_windows :: string where
  "PLATFORM_DOWNLOAD_URLS_windows =
     ''https://github.com/SSLcom/CodeSignTool/releases/download/v1.3.0/CodeSignTool-v1.3.0-windows.zip''"

definition PLATFORM_DOWNLOAD_URLS_unix :: string where
  "PLATFORM_DOWNLOAD_URLS_unix =
     ''https://github.com/SSLcom/CodeSignTool/releases/download/v1.3.0/CodeSignTool-v1.3.0.zip''"

definition JAVA_EXEC_TEMPLATES_windows :: string where
  "JAVA_EXEC_TEMPLATES_windows =
     ''${{ JAVA_HOME }} -Xmx${{ JVM_MAX_MEMORY }} -jar ${{ CODE_SIGN_TOOL_PATH }}''
     @ [CHR 0x5C] @ ''jar'' @ [CHR 0x5C] @ ''code_sign_tool-1.3.0.jar''"

definition JAVA_EXEC_TEMPLATES_unix :: string where
  "JAVA_EXEC_TEMPLATES_unix =
     ''${{ JAVA_HOME }} -Xmx${{ JVM_MAX_MEMORY }} -jar ${{ CODE_SIGN_TOOL_PATH }}/jar/code_sign_tool-1.3.0.jar''"

definition PROD_ENV_SETTINGS :: string where
  "PROD_ENV_SETTINGS = joinWith [CHR 0x0A]
     [''CLIENT_ID=kaXTRACNijSWsFdRKg_KAfD3fqrBlzMbWs6TwWHwAn8'',
      ''OAUTH2_ENDPOINT=https://login.ssl.com/oauth2/token'',
      ''CSC_API_ENDPOINT=https://cs.ssl.com'',
      ''TSA_URL=http://ts.ssl.com'',
      ''TSA_LEGACY_URL=http://ts.ssl.com/legacy'']"

definition SANDBOX_ENV_SETTINGS :: string where
  "SANDBOX_ENV_SETTINGS = joinWith [CHR 0x0A]
     [''CLIENT_ID=qOUeZCCzSqgA93acB3LYq6lBNjgZdiOxQc-KayC3UMw'',
      ''OAUTH2_ENDPOINT=https://oauth-sandbox.ssl.com/oauth2/token'',
      ''CSC_API_ENDPOINT=https://cs-try.ssl.com'',
      ''TSA_URL=http://ts.ssl.com'',
      ''TSA_LEGACY_URL=http://ts.ssl.com/legacy'']"

section \<open>util.ts: the command parameter builder\<close>

text \<open>
  \<^verbatim>\<open>expandEnvironmentVars\<close>: one \<^verbatim>\<open>replace\<close> per environment variable, in enumeration
  order, each on the result of the one before.
\<close>

definition expandEnvironmentVars :: "world \<Rightarrow> string \<Rightarrow> string" where
  "expandEnvironmentVars w input =
     foldl (\<lambda>result (envKey, envValue). replaceFirst result (''${'' @ envKey @ ''}'') envValue)
       input (env w)"

definition fetchInputValue :: "host \<Rightarrow> world \<Rightarrow> string \<Rightarrow> string" where
  "fetchInputValue h w inputKey = expandEnvironmentVars w (getInput h inputKey)"

text \<open>\<^verbatim>\<open>COMMAND_PARAMETERS.get(action)?.includes(inputKey)\<close>, false for an unknown action.\<close>

definition isSupported :: "string \<Rightarrow> string \<Rightarrow> bool" where
  "isSupported action inputKey =
     (case COMMAND_PARAMETERS action of None \<Rightarrow> False | Some keys \<Rightarrow> inputKey \<in> set keys)"

definition appendParameter :: "host \<Rightarrow> world \<Rightarrow> string \<Rightarrow> string \<Rightarrow> string \<Rightarrow> (string \<times> world) result" where
  "appendParameter h w inputKey command action =
     (let inputValue = fetchInputValue h w inputKey in
      if inputValue = [] then Inr (command, w)
      else if \<not> isSupported action inputKey then Inr (command, w)
      else if inputKey = ''username'' then
        Inr (command @ '' -username='' @ [dq] @ inputValue @ [dq], w)
      else if inputKey = ''password'' then
        Inr (command @ '' -password='' @ [dq] @ inputValue @ [dq], w)
      else if inputKey = ''credential_id'' then
        Inr (command @ '' -credential_id='' @ [dq] @ inputValue @ [dq], w)
      else if inputKey = ''totp_secret'' then
        Inr (command @ '' -totp_secret='' @ [dq] @ inputValue @ [dq], w)
      else if inputKey = ''program_name'' then
        Inr (command @ '' -program_name='' @ [dq] @ inputValue @ [dq], w)
      else if inputKey = ''file_path'' then
        Inr (command @ '' -input_file_path='' @ [dq] @ pathNormalize h inputValue @ [dq], w)
      else if inputKey = ''dir_path'' then
        Inr (command @ '' -input_dir_path='' @ [dq] @ pathNormalize h inputValue @ [dq], w)
      else if inputKey = ''output_path'' then
        (let outputDir = pathNormalize h inputValue in
         if existsSync h w outputDir
         then Inr (command @ '' -output_dir_path='' @ [dq] @ outputDir @ [dq], w)
         else (case mkdirSync h w outputDir of
                 Inl e \<Rightarrow> Inl e
               | Inr w' \<Rightarrow> Inr (command @ '' -output_dir_path='' @ [dq] @ outputDir @ [dq], w')))
      else if inputKey = ''malware_block'' then
        Inr (command @ '' -malware_block='' @ inputValue, w)
      else if inputKey = ''override'' then
        Inr (command @ '' -override='' @ inputValue, w)
      else Inr (command, w))"

text \<open>A run of \<^verbatim>\<open>cmd = appendParameter(key, cmd, action)\<close> statements, one per key.\<close>

fun appendParameters :: "host \<Rightarrow> world \<Rightarrow> string list \<Rightarrow> string \<Rightarrow> string \<Rightarrow> (string \<times> world) result" where
  "appendParameters h w [] command action = Inr (command, w)"
| "appendParameters h w (inputKey # inputKeys) command action =
     (case appendParameter h w inputKey command action of
        Inl e \<Rightarrow> Inl e
      | Inr (command', w') \<Rightarrow> appendParameters h w' inputKeys command' action)"

definition candidateKeys :: "string list" where
  "candidateKeys = [''username'', ''password'', ''credential_id'', ''totp_secret'', ''program_name'',
                    ''file_path'', ''dir_path'', ''output_path'', ''override'', ''malware_block'']"

definition assembleCommandString :: "host \<Rightarrow> world \<Rightarrow> string \<Rightarrow> (string \<times> world) result" where
  "assembleCommandString h w action =
     appendParameters h w candidateKeys (getInput h ''command'') action"

text \<open>
  What \<^verbatim>\<open>appendParameter\<close> adds to the command for a key it emits, read off its
  branches.
\<close>

definition flagFragment :: "host \<Rightarrow> world \<Rightarrow> string \<Rightarrow> string" where
  "flagFragment h w inputKey =
     (let inputValue = fetchInputValue h w inputKey in
      if inputKey = ''username'' then '' -username='' @ [dq] @ inputValue @ [dq]
      else if inputKey = ''password'' then '' -password='' @ [dq] @ inputValue @ [dq]
      else if inputKey = ''credential_id'' then '' -credential_id='' @ [dq] @ inputValue @ [dq]
      else if inputKey = ''totp_secret'' then '' -totp_secret='' @ [dq] @ inputValue @ [dq]
      else if inputKey = ''program_name'' then '' -program_name='' @ [dq] @ inputValue @ [dq]
      else if inputKey = ''file_path'' then
        '' -input_file_path='' @ [dq] @ pathNormalize h inputValue @ [dq]
      else if inputKey = ''dir_path'' then
        '' -input_dir_path='' @ [dq] @ pathNormalize h inputValue @ [dq]
      else if inputKey = ''output_path'' then
        '' -output_dir_path='' @ [dq] @ pathNormalize h inputValue @ [dq]
      else if inputKey = ''malware_block'' then '' -malware_block='' @ inputValue
      else if inputKey = ''override'' then '' -override='' @ inputValue
      else [])"

section \<open>util.ts: platform, shell and versions\<close>

definition identifyPlatform :: "host \<Rightarrow> string" where
  "identifyPlatform h =
     (if platform h = ''darwin'' then ''MACOS''
      else if platform h = ''win32'' then ''WINDOWS''
      else ''UNIX'')"

definition detectArchiveFormat :: "host \<Rightarrow> string" where
  "detectArchiveFormat h = (if platform h = ''win32'' then ''zip'' else ''tar.gz'')"

text \<open>
  \<^verbatim>\<open>resolveUserShell\<close> returns a string or \<^verbatim>\<open>null\<close>. The \<^verbatim>\<open>try\<close> block returns the shell
  of the user record whenever \<^verbatim>\<open>userInfo()\<close> returns; the lines after it run only when it
  throws.
\<close>

definition resolveUserShell :: "host \<Rightarrow> world \<Rightarrow> string \<Rightarrow> string option" where
  "resolveUserShell h w signingMethod =
     (if identifyPlatform h = ''WINDOWS'' then Some []
      else if signingMethod = ''v2'' then Some []
      else (case userInfo h of
              Some userShellInfo \<Rightarrow> shell userShellInfo
            | None \<Rightarrow>
                if identifyPlatform h = ''MACOS''
                then Some (case map_of (env w) ''SHELL'' of Some sh \<Rightarrow> sh | None \<Rightarrow> ''/bin/zsh'')
                else Some (case map_of (env w) ''SHELL'' of Some sh \<Rightarrow> sh | None \<Rightarrow> ''/bin/sh'')))"

definition checkVersionCompatibility :: "host \<Rightarrow> string \<Rightarrow> string \<Rightarrow> bool result" where
  "checkVersionCompatibility h versionRange versionStr =
     (let isValid = (case svValid (semver h) versionRange of None \<Rightarrow> False | Some v \<Rightarrow> v \<noteq> []);
          hasBuild = (case svParse (semver h) versionRange of
                        None \<Rightarrow> False
                      | Some semRange \<Rightarrow> build semRange \<noteq> [])
      in if isValid \<and> hasBuild
         then (case svCompareBuild (semver h) versionRange versionStr of
                 Inl e \<Rightarrow> Inl e
               | Inr c \<Rightarrow> Inr (c = 0))
         else Inr (svSatisfies (semver h) versionStr versionRange))"

definition findCachedTool :: "host \<Rightarrow> world \<Rightarrow> string \<Rightarrow> string \<Rightarrow> string \<Rightarrow> string option" where
  "findCachedTool h w toolName versionStr architecture =
     (let toolCacheRoot = (case map_of (env w) ''RUNNER_TOOL_CACHE'' of None \<Rightarrow> [] | Some r \<Rightarrow> r);
          fullPath = pathJoin h [toolCacheRoot, toolName, versionStr, architecture]
      in if existsSync h w fullPath then Some fullPath else None)"

definition debugListDirectory :: "host \<Rightarrow> world \<Rightarrow> string \<Rightarrow> unit result" where
  "debugListDirectory h w dirPath =
     (case readdirSync h w dirPath of Inl e \<Rightarrow> Inl e | Inr names \<Rightarrow> Inr ())"

section \<open>setup-jdk-base-installer.ts\<close>

definition parseVersion :: "host \<Rightarrow> string \<Rightarrow> (string \<times> bool) result" where
  "parseVersion h versionStr =
     (let (cleanedVersion, isStable) =
            (if endsWith versionStr ''-ea'' then (removeSuffix versionStr ''-ea'', False)
             else if includesStr versionStr ''-ea.'' then (replaceFirst versionStr ''-ea.'' ''+'', False)
             else (versionStr, True))
      in (case svValidRange (semver h) cleanedVersion of
            None \<Rightarrow>
              Inl (Error (''The string '' @ [CHR 0x27] @ versionStr @ [CHR 0x27]
                          @ '' is not valid SemVer notation for a Java version. Please check README file for code snippets and more detailed information''))
          | Some isValidSemver \<Rightarrow>
              if isValidSemver = []
              then Inl (Error (''The string '' @ [CHR 0x27] @ versionStr @ [CHR 0x27]
                               @ '' is not valid SemVer notation for a Java version. Please check README file for code snippets and more detailed information''))
              else Inr (cleanedVersion, isStable)))"

text \<open>The constructor: version 11, stable, the machine's architecture, no check for the latest.\<close>

definition JdkInstallationBase :: "host \<Rightarrow> string \<Rightarrow> installer result" where
  "JdkInstallationBase h name =
     (case parseVersion h ''11'' of
        Inl e \<Rightarrow> Inl e
      | Inr (v, st) \<Rightarrow>
          Inr \<lparr> distributionName = name, jdkVersion = v, systemArchitecture = arch h,
                distributionType = ''jdk'', isStableRelease = st, shouldCheckLatest = False \<rparr>)"

definition cachedToolDirectory :: "installer \<Rightarrow> string" where
  "cachedToolDirectory inst = ''Java_'' @ distributionName inst @ ''_'' @ distributionType inst"

definition formatCacheVersionName :: "installer \<Rightarrow> string \<Rightarrow> string" where
  "formatCacheVersionName inst versionString =
     (if \<not> isStableRelease inst
      then (if includesStr versionString ''+'' then replaceFirst versionString ''+'' ''-ea.''
            else versionString @ ''-ea'')
      else replaceFirst versionString ''+'' ''-'')"

definition normalizeVersionString :: "string \<Rightarrow> string" where
  "normalizeVersionString versionStr =
     replaceFirst (removeSuffix (replaceFirst versionStr ''-ea.'' ''+'') ''-ea'') ''-'' ''+''"

definition getCachedVersionsList :: "host \<Rightarrow> world \<Rightarrow> installer \<Rightarrow> cache_entry list result" where
  "getCachedVersionsList h w inst =
     (case findAllVersions h w (cachedToolDirectory inst) (systemArchitecture inst) of
        Inl e \<Rightarrow> Inl e
      | Inr names \<Rightarrow>
          Inr (filter (\<lambda>entry. stable entry = isStableRelease inst)
                 (map (\<lambda>versionStr.
                         \<lparr> version = normalizeVersionString versionStr,
                           path = (case findCachedTool h w (cachedToolDirectory inst) versionStr
                                           (systemArchitecture inst) of
                                     None \<Rightarrow> [] | Some toolPath \<Rightarrow> toolPath),
                           stable = \<not> includesStr versionStr ''-ea'' \<rparr>)
                    names)))"

text \<open>\<^verbatim>\<open>Array.prototype.filter\<close> with a predicate that may throw.\<close>

fun filterE :: "('a \<Rightarrow> bool result) \<Rightarrow> 'a list \<Rightarrow> 'a list result" where
  "filterE keep [] = Inr []"
| "filterE keep (x # xs) =
     (case keep x of
        Inl e \<Rightarrow> Inl e
      | Inr b \<Rightarrow>
          (case filterE keep xs of
             Inl e \<Rightarrow> Inl e
           | Inr rest \<Rightarrow> Inr (if b then x # rest else rest)))"

text \<open>
  \<^verbatim>\<open>Array.prototype.sort\<close> is stable. Each element is put before the first element of
  the sorted rest that the comparator does not place ahead of it, which gives that order;
  the sort throws when the comparator does.
\<close>

fun insertSorted :: "('a \<Rightarrow> 'a \<Rightarrow> int result) \<Rightarrow> 'a \<Rightarrow> 'a list \<Rightarrow> 'a list result" where
  "insertSorted cmp x [] = Inr [x]"
| "insertSorted cmp x (y # ys) =
     (case cmp x y of
        Inl e \<Rightarrow> Inl e
      | Inr c \<Rightarrow>
          if c \<le> 0 then Inr (x # y # ys)
          else (case insertSorted cmp x ys of
                  Inl e \<Rightarrow> Inl e
                | Inr rest \<Rightarrow> Inr (y # rest)))"

fun jsSort :: "('a \<Rightarrow> 'a \<Rightarrow> int result) \<Rightarrow> 'a list \<Rightarrow> 'a list result" where
  "jsSort cmp [] = Inr []"
| "jsSort cmp (x # xs) =
     (case jsSort cmp xs of
        Inl e \<Rightarrow> Inl e
      | Inr ordered \<Rightarrow> insertSorted cmp x ordered)"

definition filterAndSortVersions :: "host \<Rightarrow> installer \<Rightarrow> cache_entry list \<Rightarrow> cache_entry list result" where
  "filterAndSortVersions h inst versions =
     (case filterE (\<lambda>entry. checkVersionCompatibility h (jdkVersion inst) (version entry)) versions of
        Inl e \<Rightarrow> Inl e
      | Inr compatible \<Rightarrow>
          jsSort (\<lambda>first second.
                    case svCompareBuild (semver h) (version first) (version second) of
                      Inl e \<Rightarrow> Inl e
                    | Inr c \<Rightarrow> Inr (- c))
            (filter (\<lambda>entry. path entry \<noteq> []) compatible))"

text \<open>
  The order of the sort, read off the comparator: the first version is at least the
  second under \<^verbatim>\<open>compareBuild\<close>.
\<close>

definition notOlder :: "host \<Rightarrow> string \<Rightarrow> string \<Rightarrow> bool" where
  "notOlder h a b = (case svCompareBuild (semver h) a b of Inl e \<Rightarrow> False | Inr c \<Rightarrow> 0 \<le> c)"

definition searchToolCache :: "host \<Rightarrow> world \<Rightarrow> installer \<Rightarrow> jdk_setup_result option result" where
  "searchToolCache h w inst =
     (case getCachedVersionsList h w inst of
        Inl e \<Rightarrow> Inl e
      | Inr cachedVersions \<Rightarrow>
          (case filterAndSortVersions h inst cachedVersions of
             Inl e \<Rightarrow> Inl e
           | Inr [] \<Rightarrow> Inr None
           | Inr (bestMatch # others) \<Rightarrow>
               Inr (Some \<lparr> version = version bestMatch, path = path bestMatch \<rparr>)))"

definition configureJavaEnvironment :: "host \<Rightarrow> world \<Rightarrow> installer \<Rightarrow> string \<Rightarrow> string \<Rightarrow> world" where
  "configureJavaEnvironment h w inst versionStr installPath =
     (let majorVersionNumber = hd (splitOn CHR ''.'' versionStr);
          archUppercase = toUpperCase (systemArchitecture inst);
          w1 = exportVariable w ''JAVA_HOME'' installPath;
          w2 = addPath h w1 (pathJoin h [installPath, ''bin'']);
          w3 = setOutput w2 ''distribution'' (Text (distributionName inst));
          w4 = setOutput w3 ''path'' (Text installPath);
          w5 = setOutput w4 ''version'' (Text versionStr);
          w6 = exportVariable w5 (''JAVA_HOME_'' @ majorVersionNumber @ ''_'' @ archUppercase) installPath
      in exportVariable w6 ''JAVA_VERSION'' majorVersionNumber)"

text \<open>
  \<^verbatim>\<open>performSetup\<close>. The two abstract methods are called on a state that records the call,
  so that a run shows whether the network was used.
\<close>

definition performSetup :: "host \<Rightarrow> world \<Rightarrow> jdk_provider \<Rightarrow> installer \<Rightarrow> (jdk_setup_result \<times> world) result" where
  "performSetup h w provider inst =
     (case searchToolCache h w inst of
        Inl e \<Rightarrow> Inl e
      | Inr cached \<Rightarrow>
          (case (if cached \<noteq> None \<and> \<not> shouldCheckLatest inst then Inr (cached, w)
                 else (case locateReleaseForVersion provider inst
                              (w\<lparr>events := events w @ [ReleaseLookup (jdkVersion inst)]\<rparr>)
                              (jdkVersion inst) of
                         Inl e \<Rightarrow> Inl e
                       | Inr (releasePackage, w1) \<Rightarrow>
                           if (case cached of
                                 None \<Rightarrow> False
                               | Some found \<Rightarrow> version found = releaseVersion releasePackage)
                           then Inr (cached, w1)
                           else (case fetchJdkArchive provider inst
                                        (w1\<lparr>events := events w1 @ [ArchiveDownload (url releasePackage)]\<rparr>)
                                        releasePackage of
                                   Inl e \<Rightarrow> Inl e
                                 | Inr (fetched, w2) \<Rightarrow> Inr (Some fetched, w2)))) of
             Inl e \<Rightarrow> Inl e
           | Inr (None, w3) \<Rightarrow> Inl (Error ''Failed to setup JDK installation'')
           | Inr (Some jdkInstallation, w3) \<Rightarrow>
               (let macosJdkPath = pathJoin h [path jdkInstallation, JAVA_MAC_PATH_SUFFIX];
                    adjusted = (if platform h = ''darwin'' \<and> existsSync h w3 macosJdkPath
                                then jdkInstallation\<lparr>path := macosJdkPath\<rparr>
                                else jdkInstallation)
                in Inr (adjusted,
                        configureJavaEnvironment h w3 inst (version adjusted) (path adjusted)))))"

section \<open>setup-codesigner.ts: the signing tool manager\<close>

text \<open>\<^verbatim>\<open>getDownloadDetails\<close>: the download address, the launcher script and the platform.\<close>

definition getDownloadDetails :: "host \<Rightarrow> string \<times> string \<times> string" where
  "getDownloadDetails h =
     (let currentPlatform = identifyPlatform h;
          isWindows = (currentPlatform = ''WINDOWS'')
      in (if isWindows then PLATFORM_DOWNLOAD_URLS_windows else PLATFORM_DOWNLOAD_URLS_unix,
          if isWindows then ''CodeSignTool.bat'' else ''CodeSignTool.sh'',
          currentPlatform))"

definition writeConfiguration :: "host \<Rightarrow> world \<Rightarrow> string \<Rightarrow> string \<Rightarrow> world result" where
  "writeConfiguration h w toolPath environment =
     (let configContent = (if environment = ''PROD'' then PROD_ENV_SETTINGS else SANDBOX_ENV_SETTINGS);
          configPath = pathJoin h [toolPath, ''conf/code_sign_tool.properties'']
      in writeFileSync h w configPath configContent)"

text \<open>
  \<^verbatim>\<open>buildExecutableCommand\<close>. The file system of the model has no permissions, so
  \<^verbatim>\<open>chmodSync\<close> on the script just written leaves it as it is.
\<close>

definition buildExecutableCommand ::
    "host \<Rightarrow> world \<Rightarrow> string \<Rightarrow> string \<Rightarrow> string \<Rightarrow> string \<Rightarrow> string \<Rightarrow> (string \<times> world) result" where
  "buildExecutableCommand h w toolPath scriptName signVersion memoryLimit platformName =
     (if signVersion = ''v1'' then
        (let scriptPath = pathJoin h [toolPath, scriptName] in
         case readFileSync h w scriptPath of
           Inl e \<Rightarrow> Inl e
         | Inr scriptContent \<Rightarrow>
             (let modifiedContent =
                    replaceAll
                      (replaceAll scriptContent ''java -jar'' (''java -Xmx'' @ memoryLimit @ '' -jar''))
                      ''$@'' ([dq] @ ''$@'' @ [dq])
              in case writeFileSync h w scriptPath modifiedContent of
                   Inl e \<Rightarrow> Inl e
                 | Inr w' \<Rightarrow> Inr (scriptPath, w')))
      else
        (let template = (if platformName = ''WINDOWS'' then JAVA_EXEC_TEMPLATES_windows
                         else JAVA_EXEC_TEMPLATES_unix)
         in Inr (replaceAll (replaceAll template ''${{ CODE_SIGN_TOOL_PATH }}'' toolPath)
                   ''${{ JVM_MAX_MEMORY }}'' memoryLimit, w)))"

definition errorPatterns :: "string list" where
  "errorPatterns = [''Error'', ''Exception'', ''Missing required option'',
                    ''Unmatched arguments from'', ''Unmatched argument'']"

definition hasExecutionError :: "exec_output \<Rightarrow> bool" where
  "hasExecutionError output =
     (list_ex (\<lambda>pattern. includesStr (stdout output) pattern) errorPatterns
      \<or> list_ex (\<lambda>pattern. includesStr (stderr output) pattern) errorPatterns)"

definition ensureToolDownloaded :: "host \<Rightarrow> world \<Rightarrow> string \<Rightarrow> string \<Rightarrow> (string \<times> world) result" where
  "ensureToolDownloaded h w baseDir downloadUrl =
     (let defaultPath = pathJoin h [baseDir, SIGNING_TOOL_DIR];
          toolPath = (case map_of (env w) ''CODESIGNTOOL_PATH'' of
                        None \<Rightarrow> defaultPath
                      | Some cachedPath \<Rightarrow> cachedPath)
      in if existsSync h w toolPath then Inr (toolPath, w)
         else
           (case downloadTool h (w\<lparr>events := events w @ [ArchiveDownload downloadUrl]\<rparr>) downloadUrl of
              Inl e \<Rightarrow> Inl e
            | Inr (downloadedArchive, w1) \<Rightarrow>
                (case extractZip h w1 downloadedArchive (pathJoin h [baseDir, SIGNING_TOOL_DIR]) of
                   Inl e \<Rightarrow> Inl e
                 | Inr (extracted, w2) \<Rightarrow>
                     (case readdirSync h w2 baseDir of
                        Inl e \<Rightarrow> Inl e
                      | Inr [] \<Rightarrow>
                          Inl (TypeError ''The path argument must be of type string. Received undefined'')
                      | Inr (firstDir # others) \<Rightarrow>
                          (let located = pathJoin h [baseDir, firstDir]
                           in Inr (located, exportVariable w2 ''CODESIGNTOOL_PATH'' located))))))"

definition initialize :: "host \<Rightarrow> world \<Rightarrow> (string \<times> world) result" where
  "initialize h w =
     (let workDir = pathResolve h [cwd h] in
      case debugListDirectory h w workDir of
        Inl e \<Rightarrow> Inl e
      | Inr u \<Rightarrow>
          (let (downloadUrl, executableScript, platformName) = getDownloadDetails h;
               toolBaseDir = pathResolve h [cwd h, ''codesign'']
           in case (if existsSync h w toolBaseDir then Inr w else mkdirSync h w toolBaseDir) of
                Inl e \<Rightarrow> Inl e
              | Inr w1 \<Rightarrow>
                  (case ensureToolDownloaded h w1 toolBaseDir downloadUrl of
                     Inl e \<Rightarrow> Inl e
                   | Inr (toolPath, w2) \<Rightarrow>
                       (case debugListDirectory h w2 toolPath of
                          Inl e \<Rightarrow> Inl e
                        | Inr u' \<Rightarrow>
                            (let environment = (if getInput h ''environment_name'' = [] then ''PROD''
                                                else getInput h ''environment_name'');
                                 memoryLimit = (if getInput h ''jvm_max_memory'' = [] then ''2048M''
                                                else getInput h ''jvm_max_memory'');
                                 signVersion = (if getInput h ''signing_method'' = [] then ''v1''
                                                else getInput h ''signing_method'')
                             in case writeConfiguration h w2 toolPath environment of
                                  Inl e \<Rightarrow> Inl e
                                | Inr w3 \<Rightarrow>
                                    (case buildExecutableCommand h
                                            (exportVariable w3 ''CODE_SIGN_TOOL_PATH'' toolPath)
                                            toolPath executableScript signVersion memoryLimit
                                            platformName of
                                       Inl e \<Rightarrow> Inl e
                                     | Inr (executableCmd, w4) \<Rightarrow>
                                         (let shellPrefix =
                                                (case resolveUserShell h w4 signVersion of
                                                   None \<Rightarrow> ''null''
                                                 | Some userShell \<Rightarrow> userShell)
                                          in Inr (trim (shellPrefix @ '' '' @ executableCmd), w4))))))))"

definition buildScanCommand :: "host \<Rightarrow> world \<Rightarrow> string \<Rightarrow> (string \<times> world) result" where
  "buildScanCommand h w operation =
     appendParameters h w [''username'', ''password'', ''credential_id'', ''program_name'']
       ''scan_code'' operation"

text \<open>The command that scans one entry of the directory.\<close>

definition completeScanCmd :: "host \<Rightarrow> string \<Rightarrow> string \<Rightarrow> string \<Rightarrow> string \<Rightarrow> string" where
  "completeScanCmd h baseCommand scanCommand targetDirectory entry =
     (let fullFilePath = pathJoin h [targetDirectory, entry];
          scanWithFile = scanCommand @ '' -input_file_path='' @ [dq] @ fullFilePath @ [dq]
      in baseCommand @ '' '' @ scanWithFile)"

text \<open>The loop of \<^verbatim>\<open>performMalwareScan\<close>: one command per entry, stopping at the first failure.\<close>

fun scanEntries :: "host \<Rightarrow> world \<Rightarrow> string \<Rightarrow> string \<Rightarrow> string \<Rightarrow> string list \<Rightarrow> (bool \<times> world) result" where
  "scanEntries h w baseCommand scanCommand targetDirectory [] = Inr (True, w)"
| "scanEntries h w baseCommand scanCommand targetDirectory (entry # entries) =
     (case getExecOutput h (events w)
             (completeScanCmd h baseCommand scanCommand targetDirectory entry) of
        Inl e \<Rightarrow> Inl e
      | Inr execResult \<Rightarrow>
          if hasExecutionError execResult
          then Inr (False, w\<lparr>events := events w
                       @ [Executed (completeScanCmd h baseCommand scanCommand targetDirectory entry)]\<rparr>)
          else scanEntries h
                 (w\<lparr>events := events w
                       @ [Executed (completeScanCmd h baseCommand scanCommand targetDirectory entry)]\<rparr>)
                 baseCommand scanCommand targetDirectory entries)"

definition performMalwareScan :: "host \<Rightarrow> world \<Rightarrow> string \<Rightarrow> string \<Rightarrow> (bool \<times> world) result" where
  "performMalwareScan h w baseCommand operation =
     (case buildScanCommand h w operation of
        Inl e \<Rightarrow> Inl e
      | Inr (scanCommand, w1) \<Rightarrow>
          (let targetDirectory = pathNormalize h (fetchInputValue h w1 ''dir_path'')
           in case readdirSync h w1 targetDirectory of
                Inl e \<Rightarrow> Inl e
              | Inr fileEntries \<Rightarrow>
                  scanEntries h w1 baseCommand scanCommand targetDirectory fileEntries))"

section \<open>index.ts: the execution controller\<close>

definition isJavaInstallationNeeded :: "world \<Rightarrow> bool" where
  "isJavaInstallationNeeded w =
     (case parseInt (case map_of (env w) ''JAVA_VERSION'' of None \<Rightarrow> ''0'' | Some v \<Rightarrow> v) of
        None \<Rightarrow> False
      | Some currentVersion \<Rightarrow> currentVersion < 11)"

definition detectExecutionErrors :: "exec_output \<Rightarrow> bool" where
  "detectExecutionErrors output =
     (list_ex (\<lambda>indicator. includesStr (stdout output) indicator) errorPatterns
      \<or> list_ex (\<lambda>indicator. includesStr (stderr output) indicator) errorPatterns)"

definition performLogCleanup :: "host \<Rightarrow> world \<Rightarrow> string \<Rightarrow> world result" where
  "performLogCleanup h w commandPath =
     (case getBooleanInput h ''clean_logs'' of
        Inl e \<Rightarrow> Inl e
      | Inr shouldClean \<Rightarrow>
          if shouldClean
          then Inr (rmSync h w (pathJoin h [pathDirname h commandPath, ''logs'']))
          else Inr w)"

definition setupJavaEnvironment :: "host \<Rightarrow> world \<Rightarrow> (string \<times> world) result" where
  "setupJavaEnvironment h w =
     (if isJavaInstallationNeeded w
      then (case JdkInstallationBase h ''Corretto'' of
              Inl e \<Rightarrow> Inl e
            | Inr jdkProvider \<Rightarrow>
                (case performSetup h w (corretto h) jdkProvider of
                   Inl e \<Rightarrow> Inl e
                 | Inr (installed, w') \<Rightarrow>
                     Inr (case map_of (env w') ''JAVA_HOME'' of None \<Rightarrow> [] | Some home \<Rightarrow> home, w')))
      else Inr (case map_of (env w) ''JAVA_HOME'' of None \<Rightarrow> [] | Some home \<Rightarrow> home, w))"

text \<open>
  How a run ends: the process exits in the subscription check, the run is marked failed
  with a message, an error is caught at the top and its message reported (the state at
  the throw is not followed), or the run completes.
\<close>

datatype outcome =
    Exited nat
  | Failed string world
  | Caught string
  | Completed world

definition genericFailure :: string where
  "genericFailure = ''Something Went Wrong. Please try again.''"

definition main :: "host \<Rightarrow> world \<Rightarrow> outcome" where
  "main h w =
     (if subscriptionDenied h then Exited 1
      else
        (let operationType = getInput h ''command'' in
         case
           (case assembleCommandString h w operationType of
              Inl e \<Rightarrow> Inl e
            | Inr (commandParameters, w1) \<Rightarrow>
                (case setupJavaEnvironment h w1 of
                   Inl e \<Rightarrow> Inl e
                 | Inr (javaPath, w2) \<Rightarrow>
                     (case initialize h w2 of
                        Inl e \<Rightarrow> Inl e
                      | Inr (initialized, w3) \<Rightarrow>
                          (let toolCommand = replaceAll initialized ''${{ JAVA_HOME }}''
                                               (javaPath @ ''/bin/java'');
                               fullCommand = toolCommand @ '' '' @ commandParameters;
                               shouldScan = (toUpperCase (getInput h ''malware_block'') = ''TRUE'')
                           in case (if operationType = ''batch_sign'' \<and> shouldScan
                                    then performMalwareScan h w3 toolCommand operationType
                                    else Inr (True, w3)) of
                                Inl e \<Rightarrow> Inl e
                              | Inr (scanSuccess, w4) \<Rightarrow>
                                  if \<not> scanSuccess then Inr (Failed genericFailure w4)
                                  else
                                    (case getExecOutput h (events w4) fullCommand of
                                       Inl e \<Rightarrow> Inl e
                                     | Inr executionResult \<Rightarrow>
                                         (case performLogCleanup h
                                                 (w4\<lparr>events := events w4 @ [Executed fullCommand]\<rparr>)
                                                 fullCommand of
                                            Inl e \<Rightarrow> Inl e
                                          | Inr w5 \<Rightarrow>
                                              if detectExecutionErrors executionResult
                                              then Inr (Failed genericFailure w5)
                                              else Inr (Completed
                                                     (setOutput w5 ''CodeSigner''
                                                        (ExecResult executionResult))))))))) of
           Inl e \<Rightarrow> Caught (message e)
         | Inr ended \<Rightarrow> ended))"

section \<open>A POSIX host for worked examples\<close>

text \<open>
  Node's \<^verbatim>\<open>path.posix\<close>: a path is split at the slashes, empty and \<^verbatim>\<open>.\<close> segments
  are dropped and a \<^verbatim>\<open>..\<close> segment cancels the segment before it. A relative path may
  keep leading \<^verbatim>\<open>..\<close> segments, an absolute one may not.
\<close>

fun resolveSegments :: "bool \<Rightarrow> string list \<Rightarrow> string list \<Rightarrow> string list" where
  "resolveSegments allowAbove acc [] = rev acc"
| "resolveSegments allowAbove acc (s # ss) =
     (if s = [] \<or> s = ''.'' then resolveSegments allowAbove acc ss
      else if s = ''..'' then
        (case acc of
           [] \<Rightarrow> resolveSegments allowAbove (if allowAbove then [s] else []) ss
         | a # as \<Rightarrow>
             if a = ''..'' then resolveSegments allowAbove (if allowAbove then s # acc else acc) ss
             else resolveSegments allowAbove as ss)
      else resolveSegments allowAbove (s # acc) ss)"

definition posixNormalize :: "string \<Rightarrow> string" where
  "posixNormalize p =
     (if p = [] then ''.''
      else
        (let isAbsolute = (hd p = CHR ''/'');
             trailingSeparator = (last p = CHR ''/'');
             body = joinWith ''/'' (resolveSegments (\<not> isAbsolute) [] (splitOn CHR ''/'' p))
         in if body = [] then (if isAbsolute then ''/'' else if trailingSeparator then ''./'' else ''.'')
            else (if isAbsolute then ''/'' else []) @ body @ (if trailingSeparator then ''/'' else [])))"

definition posixJoin :: "string list \<Rightarrow> string" where
  "posixJoin parts =
     (let joined = joinWith ''/'' (filter (\<lambda>part. part \<noteq> []) parts)
      in if joined = [] then ''.'' else posixNormalize joined)"

text \<open>The location a path denotes for a process whose working directory is at \<open>base\<close>.\<close>

definition posixLocate :: "string list \<Rightarrow> string \<Rightarrow> string list" where
  "posixLocate base p =
     (if p \<noteq> [] \<and> hd p = CHR ''/'' then resolveSegments False [] (splitOn CHR ''/'' p)
      else resolveSegments False [] (base @ splitOn CHR ''/'' p))"

text \<open>\<^verbatim>\<open>path.resolve\<close>: the last absolute part and what follows it, or all parts below \<open>dir\<close>.\<close>

definition posixResolve :: "string \<Rightarrow> string list \<Rightarrow> string" where
  "posixResolve dir parts =
     (let joined = foldl (\<lambda>acc part. if part = [] then acc
                                       else if hd part = CHR ''/'' then part
                                       else acc @ ''/'' @ part) dir parts
      in ''/'' @ joinWith ''/'' (resolveSegments False [] (splitOn CHR ''/'' joined)))"

text \<open>\<^verbatim>\<open>path.dirname\<close>: the text up to the last slash that is followed by a name.\<close>

definition posixDirname :: "string \<Rightarrow> string" where
  "posixDirname p =
     (if p = [] then ''.''
      else
        (let hasRoot = (hd p = CHR ''/'');
             stripped = rev (dropWhile (\<lambda>c. c = CHR ''/'') (rev (tl p)));
             kept = rev (dropWhile (\<lambda>c. c \<noteq> CHR ''/'') (rev stripped))
         in if kept = [] then (if hasRoot then ''/'' else ''.'')
            else if hasRoot \<and> length kept = 1 then ''//''
            else hd p # butlast kept))"

subsection \<open>The semver package on plain versions\<close>

text \<open>
  The package's strict grammar: \<^verbatim>\<open>MAJOR.MINOR.PATCH\<close>, then \<^verbatim>\<open>-\<close> and dot-separated
  prerelease identifiers, then \<^verbatim>\<open>+\<close> and dot-separated build identifiers; a leading
  \<^verbatim>\<open>v\<close> is allowed. Numbers have no leading zero.
\<close>

definition isIdentifierChar :: "char \<Rightarrow> bool" where
  "isIdentifierChar c =
     (let n = (of_char c :: nat)
      in (48 \<le> n \<and> n \<le> 57) \<or> (65 \<le> n \<and> n \<le> 90) \<or> (97 \<le> n \<and> n \<le> 122) \<or> c = CHR ''-'')"

definition isNumericIdentifier :: "string \<Rightarrow> bool" where
  "isNumericIdentifier s = (s \<noteq> [] \<and> list_all isDigit s \<and> (s = ''0'' \<or> hd s \<noteq> CHR ''0''))"

definition isPrereleaseIdentifier :: "string \<Rightarrow> bool" where
  "isPrereleaseIdentifier s =
     (isNumericIdentifier s \<or> (list_all isIdentifierChar s \<and> list_ex (\<lambda>c. \<not> isDigit c) s))"

definition isBuildIdentifier :: "string \<Rightarrow> bool" where
  "isBuildIdentifier s = (s \<noteq> [] \<and> list_all isIdentifierChar s)"

definition toIdentifier :: "string \<Rightarrow> ident" where
  "toIdentifier s = (if list_all isDigit s then Numeric (digitsValue s) else Alphanumeric s)"

text \<open>Strings compare by their code units.\<close>

fun stringLess :: "string \<Rightarrow> string \<Rightarrow> bool" where
  "stringLess [] [] = False"
| "stringLess [] (d # ds) = True"
| "stringLess (c # cs) [] = False"
| "stringLess (c # cs) (d # ds) =
     ((of_char c :: nat) < of_char d \<or> (c = d \<and> stringLess cs ds))"

text \<open>
  A number of a version is at most \<^verbatim>\<open>Number.MAX_SAFE_INTEGER\<close>, 9007199254740991. For a
  numeral without leading zero that is a matter of its length and, at sixteen digits,
  of the order of the digits.
\<close>

definition isSafeInteger :: "string \<Rightarrow> bool" where
  "isSafeInteger digits =
     (length digits < 16 \<or> (length digits = 16 \<and> \<not> stringLess ''9007199254740991'' digits))"

definition nodeParse :: "string \<Rightarrow> sem_ver option" where
  "nodeParse raw =
     (let t = trim raw;
          plain = (if t \<noteq> [] \<and> hd t = CHR ''v'' then tl t else t);
          (versionPart, buildPart) =
             (case splitFirst plain ''+'' of
                None \<Rightarrow> (plain, None)
              | Some (front, back) \<Rightarrow> (front, Some back));
          (mainPart, prePart) =
             (case splitFirst versionPart ''-'' of
                None \<Rightarrow> (versionPart, None)
              | Some (front, back) \<Rightarrow> (front, Some back));
          numbers = splitOn CHR ''.'' mainPart;
          pre = (case prePart of None \<Rightarrow> [] | Some text \<Rightarrow> splitOn CHR ''.'' text);
          bld = (case buildPart of None \<Rightarrow> [] | Some text \<Rightarrow> splitOn CHR ''.'' text)
      in if length t \<le> 256 \<and> length numbers = 3 \<and> list_all isNumericIdentifier numbers
            \<and> list_all isSafeInteger numbers
            \<and> list_all isPrereleaseIdentifier pre \<and> list_all isBuildIdentifier bld
         then Some \<lparr> major = digitsValue (numbers ! 0), minor = digitsValue (numbers ! 1),
                      patch = digitsValue (numbers ! 2), prerelease = map toIdentifier pre,
                      build = bld \<rparr>
         else None)"

text \<open>\<^verbatim>\<open>valid\<close> returns the version without its build metadata.\<close>

definition nodeValid :: "string \<Rightarrow> string option" where
  "nodeValid raw =
     (case nodeParse raw of
        None \<Rightarrow> None
      | Some v \<Rightarrow>
          (let t = trim raw;
               plain = (if t \<noteq> [] \<and> hd t = CHR ''v'' then tl t else t)
           in Some (case splitFirst plain ''+'' of None \<Rightarrow> plain | Some (front, back) \<Rightarrow> front)))"

definition compareNat :: "nat \<Rightarrow> nat \<Rightarrow> int" where
  "compareNat a b = (if a = b then 0 else if a < b then - 1 else 1)"

text \<open>\<^verbatim>\<open>compareIdentifiers\<close>: numbers by value and below every other identifier.\<close>

fun comparePrereleaseIdentifiers :: "ident \<Rightarrow> ident \<Rightarrow> int" where
  "comparePrereleaseIdentifiers (Numeric a) (Numeric b) = compareNat a b"
| "comparePrereleaseIdentifiers (Numeric a) (Alphanumeric b) = - 1"
| "comparePrereleaseIdentifiers (Alphanumeric a) (Numeric b) = 1"
| "comparePrereleaseIdentifiers (Alphanumeric a) (Alphanumeric b) =
     (if a = b then 0 else if stringLess a b then - 1 else 1)"

definition compareIdentifiers :: "string \<Rightarrow> string \<Rightarrow> int" where
  "compareIdentifiers a b =
     (let anum = (a \<noteq> [] \<and> list_all isDigit a); bnum = (b \<noteq> [] \<and> list_all isDigit b)
      in if anum \<and> bnum then compareNat (digitsValue a) (digitsValue b)
         else if a = b then 0
         else if anum \<and> \<not> bnum then - 1
         else if bnum \<and> \<not> anum then 1
         else if stringLess a b then - 1 else 1)"

fun comparePre :: "ident list \<Rightarrow> ident list \<Rightarrow> int" where
  "comparePre [] [] = 0"
| "comparePre (a # as) [] = 1"
| "comparePre [] (b # bs) = - 1"
| "comparePre (a # as) (b # bs) =
     (if a = b then comparePre as bs else comparePrereleaseIdentifiers a b)"

definition compareMain :: "sem_ver \<Rightarrow> sem_ver \<Rightarrow> int" where
  "compareMain a b =
     (if major a \<noteq> major b then compareNat (major a) (major b)
      else if minor a \<noteq> minor b then compareNat (minor a) (minor b)
      else compareNat (patch a) (patch b))"

text \<open>A version with a prerelease is below the same version without one.\<close>

definition compareVersions :: "sem_ver \<Rightarrow> sem_ver \<Rightarrow> int" where
  "compareVersions a b =
     (if compareMain a b \<noteq> 0 then compareMain a b
      else if prerelease a \<noteq> [] \<and> prerelease b = [] then - 1
      else if prerelease a = [] \<and> prerelease b \<noteq> [] then 1
      else comparePre (prerelease a) (prerelease b))"

fun compareBuildIdentifiers :: "string list \<Rightarrow> string list \<Rightarrow> int" where
  "compareBuildIdentifiers [] [] = 0"
| "compareBuildIdentifiers (a # as) [] = 1"
| "compareBuildIdentifiers [] (b # bs) = - 1"
| "compareBuildIdentifiers (a # as) (b # bs) =
     (if a = b then compareBuildIdentifiers as bs else compareIdentifiers a b)"

definition nodeCompareBuild :: "string \<Rightarrow> string \<Rightarrow> int result" where
  "nodeCompareBuild a b =
     (case nodeParse a of
        None \<Rightarrow> Inl (TypeError (''Invalid Version: '' @ a))
      | Some va \<Rightarrow>
          (case nodeParse b of
             None \<Rightarrow> Inl (TypeError (''Invalid Version: '' @ b))
           | Some vb \<Rightarrow>
               Inr (if compareVersions va vb \<noteq> 0 then compareVersions va vb
                    else compareBuildIdentifiers (build va) (build vb))))"

text \<open>
  Ranges that are a partial version: \<^verbatim>\<open>M\<close> stands for \<^verbatim>\<open>>=M.0.0 <(M+1).0.0-0\<close>,
  \<^verbatim>\<open>M.m\<close> for \<^verbatim>\<open>>=M.m.0 <M.(m+1).0-0\<close>, and \<^verbatim>\<open>M.m.p\<close> for that version whatever
  its build. A version with a prerelease satisfies none of them. Other range syntax is
  outside this model and left unspecified.
\<close>

definition nodePartialRange :: "string \<Rightarrow> nat list option" where
  "nodePartialRange versionRange =
     (let numbers = splitOn CHR ''.'' (trim versionRange)
      in if length numbers \<le> 3 \<and> list_all isNumericIdentifier numbers
         then Some (map digitsValue numbers) else None)"

definition nodeSatisfies :: "string \<Rightarrow> string \<Rightarrow> bool" where
  "nodeSatisfies candidate versionRange =
     (case nodePartialRange versionRange of
        None \<Rightarrow> undefined
      | Some numbers \<Rightarrow>
          (case nodeParse candidate of
             None \<Rightarrow> False
           | Some v \<Rightarrow> prerelease v = [] \<and> numbers = take (length numbers) [major v, minor v, patch v]))"

definition nodeValidRange :: "string \<Rightarrow> string option" where
  "nodeValidRange versionRange =
     (case nodePartialRange versionRange of None \<Rightarrow> undefined | Some numbers \<Rightarrow> Some (trim versionRange))"

definition nodeSemver :: semver_lib where
  "nodeSemver = \<lparr> svValid = nodeValid, svValidRange = nodeValidRange, svParse = nodeParse,
                   svCompareBuild = nodeCompareBuild, svSatisfies = nodeSatisfies \<rparr>"

subsection \<open>The tool cache\<close>

text \<open>
  \<^verbatim>\<open>tc.findAllVersions\<close>: the entries of the tool's directory in the cache that are
  explicit versions and hold the architecture's directory with its completion marker.
\<close>

definition cachedVersionDirs ::
    "(string \<Rightarrow> string list) \<Rightarrow> (string list \<Rightarrow> string) \<Rightarrow> world \<Rightarrow> string \<Rightarrow> string \<Rightarrow> string list result" where
  "cachedVersionDirs loc joinPath w toolName architecture =
     (case map_of (env w) ''RUNNER_TOOL_CACHE'' of
        None \<Rightarrow> Inl (Error ''Expected RUNNER_TOOL_CACHE to be defined'')
      | Some cacheDirectory \<Rightarrow>
          if cacheDirectory = [] then Inl (Error ''Expected RUNNER_TOOL_CACHE to be defined'')
          else
            (case lookup (root w) (loc (joinPath [cacheDirectory, toolName])) of
               Some (Dir children) \<Rightarrow>
                 Inr (filter (\<lambda>child.
                        nodeValid (dropWhile (\<lambda>c. c = CHR ''='' \<or> c = CHR ''v'') (trim child)) \<noteq> None
                        \<and> lookup (root w) (loc (joinPath [cacheDirectory, toolName, child, architecture])) \<noteq> None
                        \<and> lookup (root w)
                             (loc (joinPath [cacheDirectory, toolName, child, architecture] @ ''.complete''))
                           \<noteq> None)
                      (map fst children))
             | Some (File content) \<Rightarrow> Inl (FsError ''ENOTDIR'' (joinPath [cacheDirectory, toolName]))
             | None \<Rightarrow> Inr []))"

text \<open>
  A Linux runner working in \<^verbatim>\<open>/work\<close>, with the given inputs, where every command ends
  as \<open>run\<close> says.
\<close>

definition linuxHost :: "(string \<Rightarrow> string) \<Rightarrow> (event list \<Rightarrow> string \<Rightarrow> exec_output result) \<Rightarrow> host" where
  "linuxHost ins run =
     \<lparr> platform = ''linux'', arch = ''x64'', cwd = ''/work'', getInput = ins,
       pathNormalize = posixNormalize, pathJoin = posixJoin, pathResolve = posixResolve ''/work'',
       pathDirname = posixDirname, pathDelimiter = '':'', locate = posixLocate [''work''],
       userInfo = Some \<lparr> username = ''runner'', shell = Some ''/bin/bash'' \<rparr>,
       semver = nodeSemver, subscriptionDenied = False,
       findAllVersions = cachedVersionDirs (posixLocate [''work'']) posixJoin,
       downloadTool = (\<lambda>w address. Inl (Error (''unreachable: '' @ address))),
       extractZip = (\<lambda>w archive dest. Inl (Error (''no archive: '' @ archive))),
       corretto = \<lparr> locateReleaseForVersion = (\<lambda>inst w versionRange. Inl (Error ''unreachable'')),
                    fetchJdkArchive = (\<lambda>inst w release. Inl (Error ''unreachable'')) \<rparr>,
       toolOf = takeWhile (\<lambda>c. c \<noteq> CHR '' ''), spawn = run \<rparr>"

text \<open>A world whose file system holds what \<open>tree\<close> says, with nothing done yet.\<close>

definition freshWorld :: "(string \<times> string) list \<Rightarrow> fsnode \<Rightarrow> world" where
  "freshWorld vars tree = \<lparr> env = vars, root = tree, outputs = [], events = [] \<rparr>"

text \<open>The inputs of a workflow step, as an association list.\<close>

definition inputsOf :: "(string \<times> string) list \<Rightarrow> string \<Rightarrow> string" where
  "inputsOf kvs inputKey = (case map_of kvs inputKey of None \<Rightarrow> [] | Some v \<Rightarrow> v)"

definition silent :: "event list \<Rightarrow> string \<Rightarrow> exec_output result" where
  "silent history cmd = Inr \<lparr> exitCode = 0, stdout = [], stderr = [] \<rparr>"

text \<open>
  A batch-signing step: credentials, a directory of three files, and two inputs that
  batch signing does not take (\<^verbatim>\<open>file_path\<close>, \<^verbatim>\<open>malware_block\<close>).
\<close>

definition batchInputs :: "string \<Rightarrow> string" where
  "batchInputs = inputsOf
     [(''command'', ''batch_sign''), (''username'', ''u''), (''password'', ''p''),
      (''credential_id'', ''c''), (''totp_secret'', ''t''), (''file_path'', ''x.exe''),
      (''dir_path'', ''dist''), (''malware_block'', ''true'')]"

definition distTree :: fsnode where
  "distTree = Dir [(''work'', Dir [(''dist'', Dir [(''a.exe'', File ''A''), (''b.exe'', File ''B''),
                                                    (''c.exe'', File ''C'')])])]"

text \<open>A signing step whose output directory lies two levels below what exists.\<close>

definition missingParentInputs :: "string \<Rightarrow> string" where
  "missingParentInputs = inputsOf [(''command'', ''sign''), (''output_path'', ''/work/a/b'')]"

text \<open>A signing step whose output directory is one level below the working directory.\<close>

definition oneLevelInputs :: "string \<Rightarrow> string" where
  "oneLevelInputs = inputsOf [(''command'', ''sign''), (''output_path'', ''signed'')]"

text \<open>A scan step given two inputs that scanning does not take, and nothing else.\<close>

definition scanOnlyInputs :: "string \<Rightarrow> string" where
  "scanOnlyInputs = inputsOf [(''command'', ''scan_code''), (''file_path'', ''x.exe''), (''override'', ''true'')]"

text \<open>A macOS runner whose user record cannot be read, and a Windows runner.\<close>

definition macHost :: host where
  "macHost = (linuxHost (inputsOf []) silent)\<lparr>platform := ''darwin'', userInfo := None\<rparr>"

definition windowsHost :: host where
  "windowsHost = (linuxHost (inputsOf []) silent)\<lparr>platform := ''win32''\<rparr>"

text \<open>
  Linux runners whose user record can be read and has an empty shell, or no shell
  (\<^verbatim>\<open>null\<close>).
\<close>

definition emptyShellHost :: host where
  "emptyShellHost = (linuxHost (inputsOf []) silent)
     \<lparr>userInfo := Some \<lparr> username = ''runner'', shell = Some [] \<rparr>\<rparr>"

definition nullShellHost :: host where
  "nullShellHost = (linuxHost (inputsOf []) silent)
     \<lparr>userInfo := Some \<lparr> username = ''runner'', shell = None \<rparr>\<rparr>"

text \<open>
  A runner that has the signing tool at \<^verbatim>\<open>/work/tool\<close> with an old configuration, Java
  17, and three files to sign in \<^verbatim>\<open>/work/dist\<close>.
\<close>

definition signingTree :: fsnode where
  "signingTree =
     Dir [(''work'',
           Dir [(''tool'', Dir [(''conf'', Dir [(''code_sign_tool.properties'', File ''CLIENT_ID=old'')]),
                                (''CodeSignTool.sh'', File ''java -jar tool.jar $@'')]),
                (''codesign'', Dir []),
                (''dist'', Dir [(''a.exe'', File ''A''), (''b.exe'', File ''B''), (''c.exe'', File ''C'')])])]"

definition signingWorld :: world where
  "signingWorld = freshWorld [(''CODESIGNTOOL_PATH'', ''/work/tool''), (''JAVA_VERSION'', ''17''),
                              (''JAVA_HOME'', ''/opt/java'')] signingTree"

definition testInputs :: "string \<Rightarrow> string" where
  "testInputs = inputsOf [(''command'', ''sign''), (''environment_name'', ''TEST''),
                          (''signing_method'', ''v2''), (''clean_logs'', ''true'')]"

definition stableInstaller :: installer where
  "stableInstaller = \<lparr> distributionName = ''Corretto'', jdkVersion = ''11'',
       systemArchitecture = ''x64'', distributionType = ''jdk'', isStableRelease = True,
       shouldCheckLatest = False \<rparr>"

text \<open>
  That runner once the tool is configured: the settings are written and the tool's path
  is exported. With signing method \<^verbatim>\<open>v2\<close> the tool is run by \<open>javaCommand\<close>.
\<close>

definition configuredWorld :: "string \<Rightarrow> world" where
  "configuredWorld settings =
     \<lparr> env = [(''CODESIGNTOOL_PATH'', ''/work/tool''), (''JAVA_VERSION'', ''17''),
              (''JAVA_HOME'', ''/opt/java''), (''CODE_SIGN_TOOL_PATH'', ''/work/tool'')],
       root = Dir [(''work'',
                Dir [(''tool'', Dir [(''conf'', Dir [(''code_sign_tool.properties'', File settings)]),
                                     (''CodeSignTool.sh'', File ''java -jar tool.jar $@'')]),
                     (''codesign'', Dir []),
                     (''dist'', Dir [(''a.exe'', File ''A''), (''b.exe'', File ''B''),
                                     (''c.exe'', File ''C'')])])],
       outputs = [], events = [] \<rparr>"

text \<open>
  A signing step that names no environment and no signing method, and that runner once
  the tool is configured for it: with signing method \<^verbatim>\<open>v1\<close> the launcher script is
  rewritten to pass the memory limit and to quote its arguments.
\<close>

definition defaultInputs :: "string \<Rightarrow> string" where
  "defaultInputs = inputsOf [(''command'', ''sign'')]"

definition wrappedWorld :: "string \<Rightarrow> world" where
  "wrappedWorld settings =
     \<lparr> env = [(''CODESIGNTOOL_PATH'', ''/work/tool''), (''JAVA_VERSION'', ''17''),
              (''JAVA_HOME'', ''/opt/java''), (''CODE_SIGN_TOOL_PATH'', ''/work/tool'')],
       root = Dir [(''work'',
                Dir [(''tool'', Dir [(''conf'', Dir [(''code_sign_tool.properties'', File settings)]),
                                     (''CodeSignTool.sh'',
                                      File (''java -Xmx2048M -jar tool.jar '' @ [dq] @ ''$@'' @ [dq]))]),
                     (''codesign'', Dir []),
                     (''dist'', Dir [(''a.exe'', File ''A''), (''b.exe'', File ''B''),
                                     (''c.exe'', File ''C'')])])],
       outputs = [], events = [] \<rparr>"

definition javaTemplate :: string where
  "javaTemplate = ''${{ JAVA_HOME }} -Xmx2048M -jar /work/tool/jar/code_sign_tool-1.3.0.jar''"

definition javaCommand :: string where
  "javaCommand = ''/opt/java/bin/java -Xmx2048M -jar /work/tool/jar/code_sign_tool-1.3.0.jar''"







text \<open>A scanner that reports an exception for \<^verbatim>\<open>b.exe\<close> and nothing for other files.\<close>

definition clean :: exec_output where
  "clean = \<lparr> exitCode = 0, stdout = ''clean'', stderr = [] \<rparr>"

definition infected :: exec_output where
  "infected = \<lparr> exitCode = 0, stdout = ''java.lang.Exception: scan'', stderr = [] \<rparr>"

definition flagging :: "event list \<Rightarrow> string \<Rightarrow> exec_output result" where
  "flagging history cmd = (if includesStr cmd ''b.exe'' then Inr infected else Inr clean)"

definition batchScanInputs :: "string \<Rightarrow> string" where
  "batchScanInputs = inputsOf
     [(''command'', ''batch_sign''), (''username'', ''u''), (''password'', ''p''),
      (''credential_id'', ''c''), (''totp_secret'', ''t''), (''dir_path'', ''dist''),
      (''malware_block'', ''true''), (''signing_method'', ''v2''), (''clean_logs'', ''true'')]"

definition batchParameters :: string where
  "batchParameters = ''batch_sign -username='' @ [dq] @ ''u'' @ [dq] @ '' -password='' @ [dq] @ ''p''
     @ [dq] @ '' -credential_id='' @ [dq] @ ''c'' @ [dq] @ '' -totp_secret='' @ [dq] @ ''t'' @ [dq]
     @ '' -input_dir_path='' @ [dq] @ ''dist'' @ [dq]"

definition scanParameters :: string where
  "scanParameters = ''scan_code -username='' @ [dq] @ ''u'' @ [dq] @ '' -password='' @ [dq] @ ''p''
     @ [dq] @ '' -credential_id='' @ [dq] @ ''c'' @ [dq]"

text \<open>A runner whose tool cache at \<^verbatim>\<open>/tc\<close> holds complete Corretto JDKs under the given names.\<close>

definition cacheTree :: "string list \<Rightarrow> fsnode" where
  "cacheTree names =
     Dir [(''tc'', Dir [(''Java_Corretto_jdk'',
            Dir (map (\<lambda>name. (name, Dir [(''x64'', Dir [(''bin'', Dir [])]),
                                          (''x64.complete'', File [])])) names))])]"

definition cacheWorld :: "string list \<Rightarrow> world" where
  "cacheWorld names = freshWorld [(''RUNNER_TOOL_CACHE'', ''/tc'')] (cacheTree names)"

text \<open>What a run of \<^verbatim>\<open>performSetup\<close> shows: the installation returned and the actions taken.\<close>

definition observed :: "(jdk_setup_result \<times> world) result \<Rightarrow> (jdk_setup_result \<times> event list) result" where
  "observed r = (case r of Inl e \<Rightarrow> Inl e | Inr (installed, w) \<Rightarrow> Inr (installed, events w))"

section \<open>Properties of the parameter builder\<close>

lemma isSupported_iff:
  "isSupported action inputKey = (\<exists>keys. COMMAND_PARAMETERS action = Some keys \<and> inputKey \<in> set keys)"
  by (simp add: isSupported_def split: option.splits)

lemma fetchInputValue_env: "env w' = env w \<Longrightarrow> fetchInputValue h w' k = fetchInputValue h w k"
  by (simp add: fetchInputValue_def expandEnvironmentVars_def)

lemma flagFragment_env: "env w' = env w \<Longrightarrow> flagFragment h w' = flagFragment h w"
  by (rule ext) (simp add: flagFragment_def fetchInputValue_def expandEnvironmentVars_def)

lemma appendParameter_shape:
  "appendParameter h w k cmd a = Inr (cmd', w') \<Longrightarrow>
     cmd' = cmd @ (if fetchInputValue h w k \<noteq> [] \<and> isSupported a k then flagFragment h w k else [])
     \<and> env w' = env w"
  by (auto simp: appendParameter_def flagFragment_def Let_def mkdirSync_def split: if_splits sum.splits)

lemma appendParameters_shape:
  "appendParameters h w ks cmd a = Inr (cmd', w') \<Longrightarrow>
     cmd' = cmd @ concat (map (flagFragment h w)
                    (filter (\<lambda>k. fetchInputValue h w k \<noteq> [] \<and> isSupported a k) ks))
     \<and> env w' = env w"
proof (induction ks arbitrary: cmd w)
  case Nil
  then show ?case by simp
next
  case (Cons k ks)
  from Cons.prems obtain c1 w1 where
    step: "appendParameter h w k cmd a = Inr (c1, w1)" and
    rest: "appendParameters h w1 ks c1 a = Inr (cmd', w')"
    by (auto split: sum.splits)
  from appendParameter_shape [OF step] have
    c1: "c1 = cmd @ (if fetchInputValue h w k \<noteq> [] \<and> isSupported a k then flagFragment h w k else [])"
    and e1: "env w1 = env w" by simp_all
  from Cons.IH [OF rest] have
    "cmd' = c1 @ concat (map (flagFragment h w1)
                    (filter (\<lambda>k. fetchInputValue h w1 k \<noteq> [] \<and> isSupported a k) ks))"
    and e2: "env w' = env w1" by simp_all
  then have "cmd' = c1 @ concat (map (flagFragment h w)
                    (filter (\<lambda>k. fetchInputValue h w k \<noteq> [] \<and> isSupported a k) ks))"
    by (simp add: fetchInputValue_env [OF e1] flagFragment_env [OF e1])
  with c1 e1 e2 show ?case by simp
qed

lemma appendParameter_skip:
  "fetchInputValue h w k = [] \<or> \<not> isSupported a k \<Longrightarrow> appendParameter h w k cmd a = Inr (cmd, w)"
  by (auto simp: appendParameter_def Let_def)

lemma appendParameters_skip:
  "\<forall>k \<in> set ks. fetchInputValue h w k = [] \<or> \<not> isSupported a k \<Longrightarrow>
   appendParameters h w ks cmd a = Inr (cmd, w)"
  by (induction ks) (simp_all add: appendParameter_skip)

lemma map_of_upsert: "map_of (upsert k v kvs) = (map_of kvs)(k \<mapsto> v)"
  by (induction kvs) auto

lemma mkdirAt_creates:
  "lookup n ps = Some (Dir entries) \<Longrightarrow> map_of entries s = None \<Longrightarrow>
   \<exists>n'. mkdirAt p n (ps @ [s]) = Inr n' \<and> lookup n' (ps @ [s]) = Some (Dir [])"
proof (induction ps arbitrary: n)
  case Nil
  then show ?case by (simp add: map_add_def)
next
  case (Cons a ps)
  then obtain es child where n: "n = Dir es" and a: "map_of es a = Some child"
    and sub: "lookup child ps = Some (Dir entries)"
    by (cases n) (auto split: option.splits)
  from Cons.IH [OF sub Cons.prems(2)] obtain c' where
    c': "mkdirAt p child (ps @ [s]) = Inr c'" "lookup c' (ps @ [s]) = Some (Dir [])" by blast
  obtain t ss where ts: "ps @ [s] = t # ss" by (cases ps) auto
  show ?case using n a c' ts by (simp add: map_of_upsert)
qed

lemma mkdirAt_missing_parent:
  "lookup n ps = None \<Longrightarrow> \<exists>e. mkdirAt p n (ps @ [s]) = Inl e"
proof (induction ps arbitrary: n)
  case Nil
  then show ?case by simp
next
  case (Cons a ps)
  obtain t ss where ts: "ps @ [s] = t # ss" by (cases ps) auto
  show ?case
  proof (cases n)
    case (File c)
    then show ?thesis by simp
  next
    case (Dir es)
    show ?thesis
    proof (cases "map_of es a")
      case None
      with Dir ts show ?thesis by simp
    next
      case (Some child)
      with Cons.prems Dir have "lookup child ps = None" by simp
      from Cons.IH [OF this] obtain e where "mkdirAt p child (ps @ [s]) = Inl e" by blast
      with Dir Some ts show ?thesis by simp
    qed
  qed
qed

lemma lookup_append:
  "lookup n (ps @ qs) = (case lookup n ps of None \<Rightarrow> None | Some m \<Rightarrow> lookup m qs)"
proof (induction ps arbitrary: n)
  case Nil
  then show ?case by simp
next
  case (Cons a ps)
  then show ?case by (cases n) (simp_all split: option.splits)
qed

lemma appendParameter_world:
  "appendParameter h w k cmd a = Inr (cmd', w') \<Longrightarrow>
     env w' = env w \<and> outputs w' = outputs w \<and> events w' = events w \<and> (k \<noteq> ''output_path'' \<longrightarrow> w' = w)"
  by (auto simp: appendParameter_def Let_def mkdirSync_def split: if_splits sum.splits)

section \<open>The claims about the parameter builder\<close>

text \<open>
  C1. For every operation and every candidate key, the builder adds a flag for the key only
  if the key is in the operation's allow-list. A key with a non-empty value that is not in
  the allow-list is skipped: no error is raised and the command and the state are as they
  were. The whole command is the base token followed by the flags of allowed keys only.
\<close>

theorem allow_list_gates_parameter:
  "(isSupported action inputKey =
      (\<exists>keys. COMMAND_PARAMETERS action = Some keys \<and> inputKey \<in> set keys))
   \<and> (\<not> isSupported action inputKey \<longrightarrow>
        appendParameter h w inputKey command action = Inr (command, w))
   \<and> (\<forall>command' w'. appendParameter h w inputKey command action = Inr (command', w')
          \<and> command' \<noteq> command \<longrightarrow> isSupported action inputKey)
   \<and> (\<forall>built w'. assembleCommandString h w action = Inr (built, w') \<longrightarrow>
          (\<exists>keys. (\<forall>k \<in> set keys. isSupported action k) \<and>
             built = getInput h ''command'' @ concat (map (flagFragment h w) keys)))"
proof (intro conjI allI impI)
  show "isSupported action inputKey =
     (\<exists>keys. COMMAND_PARAMETERS action = Some keys \<and> inputKey \<in> set keys)"
    by (rule isSupported_iff)
next
  assume "\<not> isSupported action inputKey"
  then show "appendParameter h w inputKey command action = Inr (command, w)"
    by (simp add: appendParameter_skip)
next
  fix command' w'
  assume "appendParameter h w inputKey command action = Inr (command', w') \<and> command' \<noteq> command"
  then show "isSupported action inputKey"
    using appendParameter_skip [of h w inputKey action command] by auto
next
  fix built w'
  assume run: "assembleCommandString h w action = Inr (built, w')"
  let ?keys = "filter (\<lambda>k. fetchInputValue h w k \<noteq> [] \<and> isSupported action k) candidateKeys"
  from run have "built = getInput h ''command'' @ concat (map (flagFragment h w) ?keys)"
    unfolding assembleCommandString_def by (rule appendParameters_shape [THEN conjunct1])
  moreover have "\<forall>k \<in> set ?keys. isSupported action k" by simp
  ultimately show "\<exists>keys. (\<forall>k \<in> set keys. isSupported action k) \<and>
             built = getInput h ''command'' @ concat (map (flagFragment h w) keys)" by blast
qed

theorem allow_list_gates_parameter_witness:
  "\<not> isSupported ''batch_sign'' ''malware_block''
   \<and> fetchInputValue (linuxHost batchInputs silent) (freshWorld [] distTree) ''malware_block'' = ''true''
   \<and> appendParameter (linuxHost batchInputs silent) (freshWorld [] distTree) ''malware_block''
        ''batch_sign'' ''batch_sign'' = Inr (''batch_sign'', freshWorld [] distTree)
   \<and> appendParameter (linuxHost batchInputs silent) (freshWorld [] distTree) ''username''
        ''batch_sign'' ''batch_sign''
        = Inr (''batch_sign -username='' @ [dq] @ ''u'' @ [dq], freshWorld [] distTree)
   \<and> isSupported ''batch_sign'' ''username''
   \<and> assembleCommandString (linuxHost batchInputs silent) (freshWorld [] distTree) ''batch_sign''
        = Inr (''batch_sign -username='' @ [dq] @ ''u'' @ [dq] @ '' -password='' @ [dq] @ ''p'' @ [dq]
              @ '' -credential_id='' @ [dq] @ ''c'' @ [dq] @ '' -totp_secret='' @ [dq] @ ''t'' @ [dq]
              @ '' -input_dir_path='' @ [dq] @ ''dist'' @ [dq], freshWorld [] distTree)"
proof -
  have unsupported: "\<not> isSupported ''batch_sign'' ''malware_block''"
    by code_simp
  have given: "fetchInputValue (linuxHost batchInputs silent) (freshWorld [] distTree)
      ''malware_block'' = ''true''"
    by code_simp
  have emitted: "appendParameter (linuxHost batchInputs silent) (freshWorld [] distTree) ''username''
        ''batch_sign'' ''batch_sign''
        = Inr (''batch_sign -username='' @ [dq] @ ''u'' @ [dq], freshWorld [] distTree)"
    by code_simp
  have whole: "assembleCommandString (linuxHost batchInputs silent) (freshWorld [] distTree) ''batch_sign''
        = Inr (''batch_sign -username='' @ [dq] @ ''u'' @ [dq] @ '' -password='' @ [dq] @ ''p'' @ [dq]
              @ '' -credential_id='' @ [dq] @ ''c'' @ [dq] @ '' -totp_secret='' @ [dq] @ ''t'' @ [dq]
              @ '' -input_dir_path='' @ [dq] @ ''dist'' @ [dq], freshWorld [] distTree)"
    by code_simp
  note gate = allow_list_gates_parameter [of "''batch_sign''" _ "linuxHost batchInputs silent"
      "freshWorld [] distTree" "''batch_sign''"]
  from gate [of "''malware_block''"] unsupported
  have skipped: "appendParameter (linuxHost batchInputs silent) (freshWorld [] distTree)
        ''malware_block'' ''batch_sign'' ''batch_sign'' = Inr (''batch_sign'', freshWorld [] distTree)"
    by blast
  have changed: "''batch_sign -username='' @ [dq] @ ''u'' @ [dq] \<noteq> ''batch_sign''"
    by simp
  from gate [of "''username''"] have "appendParameter (linuxHost batchInputs silent)
        (freshWorld [] distTree) ''username'' ''batch_sign'' ''batch_sign''
        = Inr (''batch_sign -username='' @ [dq] @ ''u'' @ [dq], freshWorld [] distTree)
      \<and> ''batch_sign -username='' @ [dq] @ ''u'' @ [dq] \<noteq> ''batch_sign''
      \<longrightarrow> isSupported ''batch_sign'' ''username''"
    by blast
  with emitted changed have "isSupported ''batch_sign'' ''username''" by blast
  with unsupported given skipped emitted whole show ?thesis by blast
qed

text \<open>
  C7. A key whose resolved value is empty gets no flag, whether or not the operation allows
  it; when every candidate key is empty or not allowed, the command is the base operation
  token alone.
\<close>

theorem empty_value_emits_nothing:
  "(fetchInputValue h w inputKey = [] \<longrightarrow>
      appendParameter h w inputKey command action = Inr (command, w))
   \<and> ((\<forall>k \<in> set candidateKeys. fetchInputValue h w k = [] \<or> \<not> isSupported action k) \<longrightarrow>
        assembleCommandString h w action = Inr (getInput h ''command'', w))"
  by (simp add: appendParameter_skip appendParameters_skip assembleCommandString_def)


theorem empty_value_emits_nothing_witness:
  "fetchInputValue (linuxHost scanOnlyInputs silent) (freshWorld [] distTree) ''username'' = []
   \<and> isSupported ''scan_code'' ''username''
   \<and> appendParameter (linuxHost scanOnlyInputs silent) (freshWorld [] distTree) ''username''
        ''scan_code'' ''scan_code'' = Inr (''scan_code'', freshWorld [] distTree)
   \<and> fetchInputValue (linuxHost scanOnlyInputs silent) (freshWorld [] distTree) ''file_path''
        = ''x.exe''
   \<and> assembleCommandString (linuxHost scanOnlyInputs silent) (freshWorld [] distTree) ''scan_code''
        = Inr (''scan_code'', freshWorld [] distTree)"
proof -
  have given: "fetchInputValue (linuxHost scanOnlyInputs silent) (freshWorld [] distTree)
      ''file_path'' = ''x.exe''"
    by code_simp
  have empty: "fetchInputValue (linuxHost scanOnlyInputs silent) (freshWorld [] distTree)
      ''username'' = []"
    by code_simp
  have allowed: "isSupported ''scan_code'' ''username''"
    by code_simp
  have idle: "\<forall>k \<in> set candidateKeys.
         fetchInputValue (linuxHost scanOnlyInputs silent) (freshWorld [] distTree) k = []
         \<or> \<not> isSupported ''scan_code'' k"
    by code_simp
  have base: "getInput (linuxHost scanOnlyInputs silent) ''command'' = ''scan_code''"
    by code_simp
  note skip = empty_value_emits_nothing [of "linuxHost scanOnlyInputs silent"
      "freshWorld [] distTree" "''username''" "''scan_code''" "''scan_code''"]
  from skip empty have skipped: "appendParameter (linuxHost scanOnlyInputs silent)
      (freshWorld [] distTree) ''username'' ''scan_code'' ''scan_code''
      = Inr (''scan_code'', freshWorld [] distTree)"
    by blast
  from skip [THEN conjunct2, THEN mp, OF idle]
  have bare: "assembleCommandString (linuxHost scanOnlyInputs silent)
      (freshWorld [] distTree) ''scan_code'' = Inr (''scan_code'', freshWorld [] distTree)"
    by (simp only: base)
  from empty allowed skipped given bare show ?thesis by blast
qed

text \<open>
  C4 as stated fails: \<^verbatim>\<open>fs.mkdirSync\<close> is called without the recursive option, so an
  output directory whose parent is missing is not created. With \<^verbatim>\<open>/work\<close> present and
  \<^verbatim>\<open>/work/a\<close> absent, the builder for \<^verbatim>\<open>output_path = /work/a/b\<close> raises \<^verbatim>\<open>ENOENT\<close>
  and emits no flag.
\<close>

theorem output_path_missing_parent_counterexample:
  "fetchInputValue (linuxHost missingParentInputs silent) (freshWorld [] distTree) ''output_path''
      = ''/work/a/b''
   \<and> isSupported ''sign'' ''output_path''
   \<and> pathNormalize (linuxHost missingParentInputs silent) ''/work/a/b'' = ''/work/a/b''
   \<and> \<not> existsSync (linuxHost missingParentInputs silent) (freshWorld [] distTree) ''/work/a/b''
   \<and> \<not> existsSync (linuxHost missingParentInputs silent) (freshWorld [] distTree) ''/work/a''
   \<and> appendParameter (linuxHost missingParentInputs silent) (freshWorld [] distTree)
        ''output_path'' ''sign'' ''sign'' = Inl (FsError ''ENOENT'' ''/work/a/b'')"
  by code_simp

text \<open>
  C4, amended. For a non-empty \<^verbatim>\<open>output_path\<close> that the operation allows and whose
  normalized value names nothing that exists: when the parent directory exists, the
  builder creates that one directory before emitting the flag and appends
  \<^verbatim>\<open>-output_dir_path\<close> with the normalized path, leaving the environment, the outputs and
  the actions taken as they were; when the parent is missing, the builder raises the
  file-system error instead. No other key changes the state.
\<close>

theorem output_path_creates_one_level:
  assumes "dir = pathNormalize h (fetchInputValue h w ''output_path'')"
    and "fetchInputValue h w ''output_path'' \<noteq> []"
    and "isSupported action ''output_path''"
    and "dir \<noteq> []"
    and "\<not> existsSync h w dir"
    and "locate h dir = parent @ [name]"
  shows "((\<exists>entries. lookup (root w) parent = Some (Dir entries)) \<longrightarrow>
          (\<exists>w'. appendParameter h w ''output_path'' command action
                  = Inr (command @ '' -output_dir_path='' @ [dq] @ dir @ [dq], w')
               \<and> lookup (root w') (locate h dir) = Some (Dir [])
               \<and> existsSync h w' dir
               \<and> env w' = env w \<and> outputs w' = outputs w \<and> events w' = events w))
   \<and> (lookup (root w) parent = None \<longrightarrow>
          (\<exists>e. appendParameter h w ''output_path'' command action = Inl e))
   \<and> (\<forall>inputKey command' w'. inputKey \<noteq> ''output_path'' \<and>
          appendParameter h w inputKey command action = Inr (command', w') \<longrightarrow> w' = w)"
proof (intro conjI allI impI)
  have ap: "appendParameter h w ''output_path'' command action =
      (case mkdirSync h w dir of
         Inl e \<Rightarrow> Inl e
       | Inr w' \<Rightarrow> Inr (command @ '' -output_dir_path='' @ [dq] @ dir @ [dq], w'))"
    using assms(2,3,5) unfolding assms(1) by (simp add: appendParameter_def Let_def)
  {
    assume "\<exists>entries. lookup (root w) parent = Some (Dir entries)"
    then obtain entries where p: "lookup (root w) parent = Some (Dir entries)" by blast
    from assms(4,5,6) have "lookup (root w) (parent @ [name]) = None"
      by (simp add: existsSync_def)
    with p have free: "map_of entries name = None"
      by (simp add: lookup_append split: option.splits)
    from mkdirAt_creates [OF p free, of dir] obtain n' where
      "mkdirAt dir (root w) (parent @ [name]) = Inr n'" "lookup n' (parent @ [name]) = Some (Dir [])"
      by blast
    then show "\<exists>w'. appendParameter h w ''output_path'' command action
                  = Inr (command @ '' -output_dir_path='' @ [dq] @ dir @ [dq], w')
               \<and> lookup (root w') (locate h dir) = Some (Dir [])
               \<and> existsSync h w' dir
               \<and> env w' = env w \<and> outputs w' = outputs w \<and> events w' = events w"
      using assms(4,6) by (simp add: ap mkdirSync_def existsSync_def)
  }
  {
    assume "lookup (root w) parent = None"
    from mkdirAt_missing_parent [OF this, of dir name]
    show "\<exists>e. appendParameter h w ''output_path'' command action = Inl e"
      using assms(6) by (auto simp: ap mkdirSync_def)
  }
  {
    fix inputKey command' w'
    assume "inputKey \<noteq> ''output_path'' \<and>
          appendParameter h w inputKey command action = Inr (command', w')"
    then show "w' = w" using appendParameter_world [of h w inputKey command action command' w'] by simp
  }
qed


theorem output_path_creates_one_level_witness:
  "''signed'' = pathNormalize (linuxHost oneLevelInputs silent)
       (fetchInputValue (linuxHost oneLevelInputs silent) (freshWorld [] distTree) ''output_path'')
   \<and> fetchInputValue (linuxHost oneLevelInputs silent) (freshWorld [] distTree) ''output_path'' \<noteq> []
   \<and> isSupported ''sign'' ''output_path''
   \<and> \<not> existsSync (linuxHost oneLevelInputs silent) (freshWorld [] distTree) ''signed''
   \<and> locate (linuxHost oneLevelInputs silent) ''signed'' = [''work''] @ [''signed'']
   \<and> (\<exists>entries. lookup (root (freshWorld [] distTree)) [''work''] = Some (Dir entries))
   \<and> (\<exists>w'. appendParameter (linuxHost oneLevelInputs silent) (freshWorld [] distTree)
               ''output_path'' ''sign'' ''sign''
             = Inr (''sign -output_dir_path='' @ [dq] @ ''signed'' @ [dq], w')
           \<and> existsSync (linuxHost oneLevelInputs silent) w' ''signed'')"
proof -
  have a1: "''signed'' = pathNormalize (linuxHost oneLevelInputs silent)
       (fetchInputValue (linuxHost oneLevelInputs silent) (freshWorld [] distTree) ''output_path'')"
    by code_simp
  have a2: "fetchInputValue (linuxHost oneLevelInputs silent) (freshWorld [] distTree)
      ''output_path'' \<noteq> []"
    by code_simp
  have a3: "isSupported ''sign'' ''output_path''"
    by code_simp
  have a4: "''signed'' \<noteq> []"
    by simp
  have a5: "\<not> existsSync (linuxHost oneLevelInputs silent) (freshWorld [] distTree) ''signed''"
    by code_simp
  have a6: "locate (linuxHost oneLevelInputs silent) ''signed'' = [''work''] @ [''signed'']"
    by code_simp
  have a7: "lookup (root (freshWorld [] distTree)) [''work'']
      = Some (Dir [(''dist'', Dir [(''a.exe'', File ''A''), (''b.exe'', File ''B''),
                                   (''c.exe'', File ''C'')])])"
    by code_simp
  from output_path_creates_one_level [OF a1 a2 a3 a4 a5 a6, of "''sign''"] a7
  have "\<exists>w'. appendParameter (linuxHost oneLevelInputs silent) (freshWorld [] distTree)
               ''output_path'' ''sign'' ''sign''
             = Inr (''sign -output_dir_path='' @ [dq] @ ''signed'' @ [dq], w')
           \<and> existsSync (linuxHost oneLevelInputs silent) w' ''signed''"
    by simp blast
  with a1 a2 a3 a5 a6 a7 show ?thesis by blast
qed


section \<open>The shell prefix\<close>

text \<open>
  C8 as stated fails: the fall-back to \<^verbatim>\<open>SHELL\<close> is taken only when \<^verbatim>\<open>userInfo()\<close>
  throws. When it returns a user record, the shell of that record is returned as it is.
  For a user whose record has an empty shell, or no shell (\<^verbatim>\<open>null\<close>), and with
  \<^verbatim>\<open>SHELL\<close> set to \<^verbatim>\<open>/bin/fish\<close>, the result is the empty string, or \<^verbatim>\<open>null\<close>, and
  not \<^verbatim>\<open>/bin/fish\<close>.
\<close>

theorem shell_of_user_record_counterexample:
  "resolveUserShell emptyShellHost (freshWorld [(''SHELL'', ''/bin/fish'')] distTree) ''v1'' = Some []
   \<and> resolveUserShell nullShellHost (freshWorld [(''SHELL'', ''/bin/fish'')] distTree) ''v1'' = None"
  by code_simp

text \<open>
  C8, amended. \<^verbatim>\<open>resolveUserShell\<close> returns the empty prefix on Windows and for signing
  method \<^verbatim>\<open>v2\<close>. Otherwise, when \<^verbatim>\<open>userInfo()\<close> returns a user record, it returns the
  shell of that record as it is, also when that is empty or \<^verbatim>\<open>null\<close>, whatever
  \<^verbatim>\<open>SHELL\<close> holds; only when \<^verbatim>\<open>userInfo()\<close> throws, it returns the \<^verbatim>\<open>SHELL\<close> variable
  if set, else \<^verbatim>\<open>/bin/zsh\<close> on macOS and \<^verbatim>\<open>/bin/sh\<close> elsewhere.
\<close>

theorem shell_prefix_resolution:
  "(identifyPlatform h = ''WINDOWS'' \<or> signingMethod = ''v2''
      \<longrightarrow> resolveUserShell h w signingMethod = Some [])
   \<and> (identifyPlatform h \<noteq> ''WINDOWS'' \<and> signingMethod \<noteq> ''v2'' \<longrightarrow>
        (\<forall>info. userInfo h = Some info \<longrightarrow> resolveUserShell h w signingMethod = shell info)
        \<and> (userInfo h = None \<longrightarrow>
             resolveUserShell h w signingMethod =
               Some (case map_of (env w) ''SHELL'' of
                       Some sh \<Rightarrow> sh
                     | None \<Rightarrow> if identifyPlatform h = ''MACOS'' then ''/bin/zsh'' else ''/bin/sh'')))
   \<and> (identifyPlatform h = ''WINDOWS'' \<longleftrightarrow> platform h = ''win32'')
   \<and> (identifyPlatform h = ''MACOS'' \<longleftrightarrow> platform h = ''darwin'')"
  by (auto simp: resolveUserShell_def identifyPlatform_def split: option.splits)

theorem shell_prefix_resolution_witness:
  "identifyPlatform windowsHost = ''WINDOWS''
   \<and> resolveUserShell windowsHost (freshWorld [] distTree) ''v1'' = Some []
   \<and> resolveUserShell (linuxHost (inputsOf []) silent) (freshWorld [] distTree) ''v2'' = Some []
   \<and> resolveUserShell (linuxHost (inputsOf []) silent) (freshWorld [] distTree) ''v1''
        = Some ''/bin/bash''
   \<and> userInfo macHost = None
   \<and> resolveUserShell macHost (freshWorld [] distTree) ''v1'' = Some ''/bin/zsh''
   \<and> resolveUserShell macHost (freshWorld [(''SHELL'', ''/bin/fish'')] distTree) ''v1''
        = Some ''/bin/fish''"
proof -
  have win: "identifyPlatform windowsHost = ''WINDOWS''"
    by code_simp
  from shell_prefix_resolution [of windowsHost "''v1''" "freshWorld [] distTree"] win
  have r1: "resolveUserShell windowsHost (freshWorld [] distTree) ''v1'' = Some []"
    by blast
  have r2: "resolveUserShell (linuxHost (inputsOf []) silent) (freshWorld [] distTree) ''v2''
      = Some []"
    using shell_prefix_resolution [of "linuxHost (inputsOf []) silent" "''v2''"
        "freshWorld [] distTree"] by blast
  have r3: "resolveUserShell (linuxHost (inputsOf []) silent) (freshWorld [] distTree) ''v1''
      = Some ''/bin/bash''"
    by code_simp
  have nouser: "userInfo macHost = None"
    by code_simp
  have r4: "resolveUserShell macHost (freshWorld [] distTree) ''v1'' = Some ''/bin/zsh''"
    by code_simp
  have r5: "resolveUserShell macHost (freshWorld [(''SHELL'', ''/bin/fish'')] distTree) ''v1''
      = Some ''/bin/fish''"
    by code_simp
  from win r1 r2 r3 nouser r4 r5 show ?thesis by blast
qed

section \<open>The configuration file\<close>

lemma writeAt_reads_back:
  "writeAt p content n loc = Inr n' \<Longrightarrow> lookup n' loc = Some (File content)"
proof (induction p content n loc arbitrary: n' rule: writeAt.induct)
  case (1 p content n)
  then show ?case by simp
next
  case (2 p content old s ss)
  then show ?case by simp
next
  case (3 p content entries s)
  then show ?case by (auto simp: map_of_upsert split: option.splits fsnode.splits)
next
  case (4 p content entries s t ss)
  then show ?case by (auto simp: map_of_upsert split: option.splits sum.splits)
qed

lemma writeAt_fails_alike:
  "isl (writeAt p content n loc) = isl (writeAt p content' n loc)"
proof (induction p content n loc rule: writeAt.induct)
  case (4 p content entries s t ss)
  then show ?case by (auto split: option.splits sum.splits)
qed (auto split: option.splits fsnode.splits)


lemma readFileSync_after_write:
  "writeFileSync h w p content = Inr w' \<Longrightarrow> readFileSync h w' p = Inr content"
  by (auto simp: writeFileSync_def readFileSync_def readAt_def split: sum.splits
      dest: writeAt_reads_back)

lemma writeFileSync_fails_alike:
  "isl (writeFileSync h w p content) = isl (writeFileSync h w p content')"
  using writeAt_fails_alike [of p content "root w" "locate h p" content']
  by (cases "writeAt p content (root w) (locate h p)";
      cases "writeAt p content' (root w) (locate h p)") (simp_all add: writeFileSync_def)

lemma PROD_differs: "PROD_ENV_SETTINGS \<noteq> SANDBOX_ENV_SETTINGS"
  by (simp add: PROD_ENV_SETTINGS_def SANDBOX_ENV_SETTINGS_def)

lemma writeAt_keeps_other:
  "writeAt p content n loc = Inr n' \<Longrightarrow> loc' \<noteq> loc \<Longrightarrow> lookup n loc' = Some (File c)
   \<Longrightarrow> lookup n' loc' = Some (File c)"
proof (induction p content n loc arbitrary: n' loc' rule: writeAt.induct)
  case (1 p content n)
  then show ?case by simp
next
  case (2 p content old s ss)
  then show ?case by simp
next
  case (3 p content entries s)
  show ?case
  proof (cases loc')
    case Nil
    with 3 show ?thesis by simp
  next
    case (Cons s' ss')
    show ?thesis
    proof (cases "s' = s")
      case False
      with 3 Cons show ?thesis
        by (auto simp: map_of_upsert split: option.splits fsnode.splits)
    next
      case True
      with 3(2) Cons obtain x xs where ss': "ss' = x # xs" by (cases ss') auto
      with 3 Cons True show ?thesis
        by (auto simp: map_of_upsert split: option.splits fsnode.splits)
    qed
  qed
next
  case (4 p content entries s t ss)
  show ?case
  proof (cases loc')
    case Nil
    with 4 show ?thesis by simp
  next
    case (Cons s' ss')
    show ?thesis
    proof (cases "s' = s")
      case False
      with 4(2-) Cons show ?thesis
        by (auto simp: map_of_upsert split: option.splits sum.splits)
    next
      case True
      from 4(2) obtain child child' where
        child: "map_of entries s = Some child" and
        wr: "writeAt p content child (t # ss) = Inr child'" and
        n': "n' = Dir (upsert s child' entries)"
        by (auto split: option.splits sum.splits)
      from 4(3) Cons True have ne: "ss' \<noteq> t # ss" by simp
      from 4(4) Cons True child have "lookup child ss' = Some (File c)" by simp
      from 4(1) [OF child wr ne this] show ?thesis
        by (simp add: Cons True n' map_of_upsert)
    qed
  qed
qed

lemma readFileSync_other_write:
  "writeFileSync h w p content = Inr w' \<Longrightarrow> locate h q \<noteq> locate h p
   \<Longrightarrow> readFileSync h w q = Inr c \<Longrightarrow> readFileSync h w' q = Inr c"
  by (auto simp: writeFileSync_def readFileSync_def readAt_def
      split: sum.splits option.splits fsnode.splits dest: writeAt_keeps_other)

lemma buildExecutableCommand_keeps:
  assumes "buildExecutableCommand h w toolPath scriptName signVersion memoryLimit platformName
             = Inr (cmd, w')"
  shows "env w' = env w"
    and "locate h q \<noteq> locate h (pathJoin h [toolPath, scriptName])
         \<Longrightarrow> readFileSync h w q = Inr c \<Longrightarrow> readFileSync h w' q = Inr c"
proof -
  show "env w' = env w"
    using assms
    by (auto simp: buildExecutableCommand_def Let_def writeFileSync_def
        split: if_splits sum.splits)
  show "readFileSync h w' q = Inr c"
    if "locate h q \<noteq> locate h (pathJoin h [toolPath, scriptName])" "readFileSync h w q = Inr c"
    using assms that
    by (auto simp: buildExecutableCommand_def Let_def split: if_splits sum.splits
        dest: readFileSync_other_write)
qed

lemma initialize_steps:
  assumes "initialize h w = Inr (command, w')"
  obtains w2 located w3 cmd where
    "writeConfiguration h w2 located
       (if getInput h ''environment_name'' = [] then ''PROD'' else getInput h ''environment_name'')
       = Inr w3"
    and "buildExecutableCommand h (exportVariable w3 ''CODE_SIGN_TOOL_PATH'' located) located
           (fst (snd (getDownloadDetails h)))
           (if getInput h ''signing_method'' = [] then ''v1'' else getInput h ''signing_method'')
           (if getInput h ''jvm_max_memory'' = [] then ''2048M'' else getInput h ''jvm_max_memory'')
           (snd (snd (getDownloadDetails h))) = Inr (cmd, w')"
proof -
  obtain address script plat where d: "getDownloadDetails h = (address, script, plat)"
    by (cases "getDownloadDetails h")
  from assms that show thesis
    unfolding initialize_def Let_def d prod.case fst_conv snd_conv
    by (auto split: sum.splits prod.splits if_splits)
qed

text \<open>
  C9. \<^verbatim>\<open>writeConfiguration\<close> writes the production settings only for the environment name
  \<^verbatim>\<open>PROD\<close> and the sandbox settings for every other name; the name does not decide
  whether the write fails; the file then holds the settings written, whatever it held
  before; the two settings differ. \<^verbatim>\<open>initialize\<close> passes the \<^verbatim>\<open>environment_name\<close>
  input, or \<^verbatim>\<open>PROD\<close> when that input is empty: once \<^verbatim>\<open>initialize\<close> has returned,
  the properties file of the tool, at the path exported as \<^verbatim>\<open>CODE_SIGN_TOOL_PATH\<close>,
  holds the production settings when the input is empty or \<^verbatim>\<open>PROD\<close> and the sandbox
  settings for every other input. The launcher script, which \<^verbatim>\<open>initialize\<close> rewrites
  after the configuration for signing method \<^verbatim>\<open>v1\<close>, is another file than the
  properties file.
\<close>

theorem configuration_by_environment_name:
  assumes "initialize h w = Inr (command, w')"
    and "map_of (env w') ''CODE_SIGN_TOOL_PATH'' = Some installed"
    and "locate h (pathJoin h [installed, fst (snd (getDownloadDetails h))])
           \<noteq> locate h (pathJoin h [installed, ''conf/code_sign_tool.properties''])"
  shows "writeConfiguration h w0 toolPath environment
           = writeFileSync h w0 (pathJoin h [toolPath, ''conf/code_sign_tool.properties''])
               (if environment = ''PROD'' then PROD_ENV_SETTINGS else SANDBOX_ENV_SETTINGS)
    \<and> (\<forall>w1. writeConfiguration h w0 toolPath environment = Inr w1 \<longrightarrow>
          readFileSync h w1 (pathJoin h [toolPath, ''conf/code_sign_tool.properties''])
            = Inr (if environment = ''PROD'' then PROD_ENV_SETTINGS else SANDBOX_ENV_SETTINGS))
    \<and> isl (writeConfiguration h w0 toolPath environment)
        = isl (writeConfiguration h w0 toolPath ''PROD'')
    \<and> PROD_ENV_SETTINGS \<noteq> SANDBOX_ENV_SETTINGS
    \<and> readFileSync h w' (pathJoin h [installed, ''conf/code_sign_tool.properties''])
        = Inr (if getInput h ''environment_name'' = [] \<or> getInput h ''environment_name'' = ''PROD''
               then PROD_ENV_SETTINGS else SANDBOX_ENV_SETTINGS)"
proof (intro conjI allI impI)
  show "writeConfiguration h w0 toolPath environment
           = writeFileSync h w0 (pathJoin h [toolPath, ''conf/code_sign_tool.properties''])
               (if environment = ''PROD'' then PROD_ENV_SETTINGS else SANDBOX_ENV_SETTINGS)"
    by (simp add: writeConfiguration_def)
  show "readFileSync h w1 (pathJoin h [toolPath, ''conf/code_sign_tool.properties''])
            = Inr (if environment = ''PROD'' then PROD_ENV_SETTINGS else SANDBOX_ENV_SETTINGS)"
    if "writeConfiguration h w0 toolPath environment = Inr w1" for w1
    using that by (simp add: writeConfiguration_def readFileSync_after_write)
  show "isl (writeConfiguration h w0 toolPath environment)
        = isl (writeConfiguration h w0 toolPath ''PROD'')"
    by (simp add: writeConfiguration_def writeFileSync_fails_alike [of h w0 _ SANDBOX_ENV_SETTINGS PROD_ENV_SETTINGS])
  show "PROD_ENV_SETTINGS \<noteq> SANDBOX_ENV_SETTINGS" by (rule PROD_differs)
  let ?name = "getInput h ''environment_name''"
  let ?chosen = "if ?name = [] then ''PROD'' else ?name"
  let ?settings = "if ?name = [] \<or> ?name = ''PROD'' then PROD_ENV_SETTINGS else SANDBOX_ENV_SETTINGS"
  from assms(1) obtain w2 located w3 cmd where
    written: "writeConfiguration h w2 located ?chosen = Inr w3" and
    built: "buildExecutableCommand h (exportVariable w3 ''CODE_SIGN_TOOL_PATH'' located) located
           (fst (snd (getDownloadDetails h)))
           (if getInput h ''signing_method'' = [] then ''v1'' else getInput h ''signing_method'')
           (if getInput h ''jvm_max_memory'' = [] then ''2048M'' else getInput h ''jvm_max_memory'')
           (snd (snd (getDownloadDetails h))) = Inr (cmd, w')"
    by (rule initialize_steps)
  from buildExecutableCommand_keeps(1) [OF built]
  have "map_of (env w') ''CODE_SIGN_TOOL_PATH'' = Some located"
    by (simp add: exportVariable_def map_of_upsert)
  with assms(2) have same: "located = installed" by simp
  have chosen: "(if ?chosen = ''PROD'' then PROD_ENV_SETTINGS else SANDBOX_ENV_SETTINGS) = ?settings"
    by simp
  from written have "readFileSync h w3 (pathJoin h [located, ''conf/code_sign_tool.properties''])
      = Inr (if ?chosen = ''PROD'' then PROD_ENV_SETTINGS else SANDBOX_ENV_SETTINGS)"
    by (simp only: writeConfiguration_def Let_def readFileSync_after_write)
  then have "readFileSync h (exportVariable w3 ''CODE_SIGN_TOOL_PATH'' located)
        (pathJoin h [located, ''conf/code_sign_tool.properties'']) = Inr ?settings"
    by (simp only: chosen) (simp add: readFileSync_def exportVariable_def)
  from buildExecutableCommand_keeps(2) [OF built assms(3) [folded same, symmetric] this]
  show "readFileSync h w' (pathJoin h [installed, ''conf/code_sign_tool.properties''])
        = Inr ?settings"
    by (simp only: same)
qed

theorem configuration_by_environment_name_witness:
  "getInput (linuxHost testInputs silent) ''environment_name'' = ''TEST''
   \<and> readFileSync (linuxHost testInputs silent) signingWorld
         ''/work/tool/conf/code_sign_tool.properties'' = Inr ''CLIENT_ID=old''
   \<and> initialize (linuxHost testInputs silent) signingWorld
        = Inr (javaTemplate, configuredWorld SANDBOX_ENV_SETTINGS)
   \<and> readFileSync (linuxHost testInputs silent) (configuredWorld SANDBOX_ENV_SETTINGS)
         ''/work/tool/conf/code_sign_tool.properties'' = Inr SANDBOX_ENV_SETTINGS
   \<and> getInput (linuxHost defaultInputs silent) ''environment_name'' = []
   \<and> initialize (linuxHost defaultInputs silent) signingWorld
        = Inr (''/bin/bash /work/tool/CodeSignTool.sh'', wrappedWorld PROD_ENV_SETTINGS)
   \<and> readFileSync (linuxHost defaultInputs silent) (wrappedWorld PROD_ENV_SETTINGS)
         ''/work/tool/conf/code_sign_tool.properties'' = Inr PROD_ENV_SETTINGS"
proof -
  let ?conf = "''/work/tool/conf/code_sign_tool.properties''"
  have test: "readFileSync (linuxHost testInputs silent) (configuredWorld SANDBOX_ENV_SETTINGS) ?conf
      = Inr SANDBOX_ENV_SETTINGS"
    and ini1: "initialize (linuxHost testInputs silent) signingWorld
        = Inr (javaTemplate, configuredWorld SANDBOX_ENV_SETTINGS)"
    and given1: "getInput (linuxHost testInputs silent) ''environment_name'' = ''TEST''"
    and old: "readFileSync (linuxHost testInputs silent) signingWorld ?conf = Inr ''CLIENT_ID=old''"
  proof -
    let ?h = "linuxHost testInputs silent"
    show a1: "initialize ?h signingWorld = Inr (javaTemplate, configuredWorld SANDBOX_ENV_SETTINGS)"
      by code_simp
    have a2: "map_of (env (configuredWorld SANDBOX_ENV_SETTINGS)) ''CODE_SIGN_TOOL_PATH''
        = Some ''/work/tool''"
      by code_simp
    have a3: "locate ?h (pathJoin ?h [''/work/tool'', fst (snd (getDownloadDetails ?h))])
        \<noteq> locate ?h (pathJoin ?h [''/work/tool'', ''conf/code_sign_tool.properties''])"
      by code_simp
    show given: "getInput ?h ''environment_name'' = ''TEST''"
      by code_simp
    have joined: "pathJoin ?h [''/work/tool'', ''conf/code_sign_tool.properties''] = ?conf"
      by code_simp
    from configuration_by_environment_name [OF a1 a2 a3]
    have "readFileSync ?h (configuredWorld SANDBOX_ENV_SETTINGS)
            (pathJoin ?h [''/work/tool'', ''conf/code_sign_tool.properties''])
        = Inr (if getInput ?h ''environment_name'' = [] \<or> getInput ?h ''environment_name'' = ''PROD''
               then PROD_ENV_SETTINGS else SANDBOX_ENV_SETTINGS)"
      by blast
    then show "readFileSync ?h (configuredWorld SANDBOX_ENV_SETTINGS) ?conf = Inr SANDBOX_ENV_SETTINGS"
      by (simp only: joined given) simp
    show "readFileSync ?h signingWorld ?conf = Inr ''CLIENT_ID=old''"
      by code_simp
  qed
  have prod: "readFileSync (linuxHost defaultInputs silent) (wrappedWorld PROD_ENV_SETTINGS) ?conf
      = Inr PROD_ENV_SETTINGS"
    and ini2: "initialize (linuxHost defaultInputs silent) signingWorld
        = Inr (''/bin/bash /work/tool/CodeSignTool.sh'', wrappedWorld PROD_ENV_SETTINGS)"
    and given2: "getInput (linuxHost defaultInputs silent) ''environment_name'' = []"
  proof -
    let ?h = "linuxHost defaultInputs silent"
    show a1: "initialize ?h signingWorld
        = Inr (''/bin/bash /work/tool/CodeSignTool.sh'', wrappedWorld PROD_ENV_SETTINGS)"
      by code_simp
    have a2: "map_of (env (wrappedWorld PROD_ENV_SETTINGS)) ''CODE_SIGN_TOOL_PATH''
        = Some ''/work/tool''"
      by code_simp
    have a3: "locate ?h (pathJoin ?h [''/work/tool'', fst (snd (getDownloadDetails ?h))])
        \<noteq> locate ?h (pathJoin ?h [''/work/tool'', ''conf/code_sign_tool.properties''])"
      by code_simp
    show given: "getInput ?h ''environment_name'' = []"
      by code_simp
    have joined: "pathJoin ?h [''/work/tool'', ''conf/code_sign_tool.properties''] = ?conf"
      by code_simp
    from configuration_by_environment_name [OF a1 a2 a3]
    have "readFileSync ?h (wrappedWorld PROD_ENV_SETTINGS)
            (pathJoin ?h [''/work/tool'', ''conf/code_sign_tool.properties''])
        = Inr (if getInput ?h ''environment_name'' = [] \<or> getInput ?h ''environment_name'' = ''PROD''
               then PROD_ENV_SETTINGS else SANDBOX_ENV_SETTINGS)"
      by blast
    then show "readFileSync ?h (wrappedWorld PROD_ENV_SETTINGS) ?conf = Inr PROD_ENV_SETTINGS"
      by (simp only: joined given) simp
  qed
  from given1 old ini1 test given2 ini2 prod show ?thesis by blast
qed

section \<open>Cache names of versions\<close>

lemma includesStr_sublist: "includesStr s pat = sublist pat s"
  by (induction s) (simp_all add: sublist_Cons_right)

lemma includesStr_single: "includesStr s [c] = (c \<in> set s)"
  by (induction s) auto

lemma splitFirst_None_iff: "splitFirst s pat = None \<longleftrightarrow> \<not> includesStr s pat"
  by (induction s) (auto split: option.splits)

lemma splitFirst_absent:
  "c \<in> set pat \<Longrightarrow> c \<notin> set s \<Longrightarrow> splitFirst s pat = None"
proof (induction s)
  case Nil
  then show ?case by auto
next
  case (Cons x xs)
  have "\<not> prefix pat (x # xs)"
  proof
    assume "prefix pat (x # xs)"
    then have "set pat \<subseteq> set (x # xs)" by (rule set_mono_prefix)
    with Cons.prems show False by auto
  qed
  with Cons show ?case by simp
qed

lemma splitFirst_first:
  "pat \<noteq> [] \<Longrightarrow> hd pat \<notin> set a \<Longrightarrow> splitFirst (a @ pat @ b) pat = Some (a, b)"
proof (induction a)
  case Nil
  then show ?case by (cases pat) auto
next
  case (Cons x a)
  then have "\<not> prefix pat (x # a @ pat @ b)" by (cases pat) auto
  with Cons show ?case by simp
qed

text \<open>A string with a single occurrence of a character, searched for a pattern that starts with it.\<close>

lemma splitFirst_single:
  "c \<notin> set a \<Longrightarrow> c \<notin> set b \<Longrightarrow>
   splitFirst (a @ c # b) (c # p) = (if prefix p b then Some (a, drop (length p) b) else None)"
proof (induction a)
  case Nil
  then show ?case by (simp add: splitFirst_absent [of c])
next
  case (Cons x a)
  then show ?case by auto
qed

lemma suffix_single:
  assumes "c \<notin> set a" and "c \<notin> set b"
  shows "suffix (c # p) (a @ c # b) \<longleftrightarrow> b = p"
proof
  assume "suffix (c # p) (a @ c # b)"
  then obtain ys where "a @ c # b = ys @ c # p" by (auto simp: suffix_def)
  with assms show "b = p" by (simp add: append_Cons_eq_iff)
next
  assume "b = p"
  then show "suffix (c # p) (a @ c # b)" by (simp add: suffix_def)
qed

lemma no_dash:
  assumes "CHR ''-'' \<notin> set s"
  shows "replaceFirst s ''-ea.'' r = s" and "removeSuffix s ''-ea'' = s" and "replaceFirst s ''-'' r = s"
proof -
  show "replaceFirst s ''-ea.'' r = s"
    using assms by (simp add: replaceFirst_def splitFirst_absent [of "CHR ''-''"])
  show "replaceFirst s ''-'' r = s"
    using assms by (simp add: replaceFirst_def splitFirst_absent [of "CHR ''-''"])
  have "\<not> suffix ''-ea'' s"
  proof
    assume "suffix ''-ea'' s"
    then have "set ''-ea'' \<subseteq> set s" by (rule set_mono_suffix)
    with assms show False by simp
  qed
  then show "removeSuffix s ''-ea'' = s" by (simp add: removeSuffix_def)
qed

lemma one_plus:
  assumes "count_list v CHR ''+'' \<le> 1" and "CHR ''+'' \<in> set v"
  obtains a b where "v = a @ ''+'' @ b" "CHR ''+'' \<notin> set a" "CHR ''+'' \<notin> set b"
proof -
  from assms(2) obtain a b where v: "v = a @ CHR ''+'' # b" and a: "CHR ''+'' \<notin> set a"
    by (meson split_list_first)
  have "count_list v CHR ''+'' = count_list a CHR ''+'' + 1 + count_list b CHR ''+''"
    by (simp add: v)
  with assms(1) have "count_list b CHR ''+'' = 0" by simp
  then have "CHR ''+'' \<notin> set b" by (simp add: count_list_0_iff)
  with v a that show thesis by simp
qed

lemma stable_round_trip:
  assumes "CHR ''-'' \<notin> set v" and "count_list v CHR ''+'' \<le> 1"
    and "\<not> includesStr (replaceFirst v ''+'' ''-'') ''-ea''"
  shows "normalizeVersionString (replaceFirst v ''+'' ''-'') = v"
proof (cases "CHR ''+'' \<in> set v")
  case False
  then have "replaceFirst v ''+'' ''-'' = v"
    by (simp add: replaceFirst_def splitFirst_absent [of "CHR ''+''"])
  then show ?thesis using assms(1)
    by (simp add: normalizeVersionString_def no_dash)
next
  case True
  with assms(2) obtain a b where v: "v = a @ ''+'' @ b" and a: "CHR ''+'' \<notin> set a"
    and b: "CHR ''+'' \<notin> set b" by (rule one_plus)
  from assms(1) v have da: "CHR ''-'' \<notin> set a" and db: "CHR ''-'' \<notin> set b" by auto
  have name: "replaceFirst v ''+'' ''-'' = a @ CHR ''-'' # b"
    using splitFirst_first [of "''+''" a b] a by (simp add: replaceFirst_def v)
  from assms(3) have "splitFirst (a @ CHR ''-'' # b) ''-ea'' = None"
    by (simp add: name splitFirst_None_iff)
  then have noea: "\<not> prefix ''ea'' b"
    by (simp add: splitFirst_single [OF da db] split: if_splits)
  then have "\<not> prefix ''ea.'' b"
    by (metis append_Cons append_Nil prefix_order.dual_order.trans prefixI)
  then have s1: "replaceFirst (a @ CHR ''-'' # b) ''-ea.'' ''+'' = a @ CHR ''-'' # b"
    by (simp add: replaceFirst_def splitFirst_single [OF da db])
  from noea have "b \<noteq> ''ea''" by auto
  then have s2: "removeSuffix (a @ CHR ''-'' # b) ''-ea'' = a @ CHR ''-'' # b"
    by (simp add: removeSuffix_def suffix_single [OF da db])
  have s3: "replaceFirst (a @ CHR ''-'' # b) ''-'' ''+'' = a @ ''+'' @ b"
    by (simp add: replaceFirst_def splitFirst_single [OF da db])
  show ?thesis unfolding normalizeVersionString_def name s1 s2 s3 by (simp add: v)
qed

lemma early_access_round_trip:
  assumes "CHR ''-'' \<notin> set v" and "count_list v CHR ''+'' \<le> 1"
  shows "normalizeVersionString
           (if includesStr v ''+'' then replaceFirst v ''+'' ''-ea.'' else v @ ''-ea'') = v"
proof (cases "CHR ''+'' \<in> set v")
  case False
  have e: "CHR ''-'' \<notin> set ''ea''" by simp
  have s1: "replaceFirst (v @ CHR ''-'' # ''ea'') ''-ea.'' ''+'' = v @ CHR ''-'' # ''ea''"
    by (simp add: replaceFirst_def splitFirst_single [OF assms(1) e])
  have s2: "removeSuffix (v @ CHR ''-'' # ''ea'') ''-ea'' = v"
    by (simp add: removeSuffix_def suffix_single [OF assms(1) e])
  show ?thesis using False assms(1)
    by (simp add: normalizeVersionString_def includesStr_single s1 s2 no_dash)
next
  case True
  with assms(2) obtain a b where v: "v = a @ ''+'' @ b" and a: "CHR ''+'' \<notin> set a"
    and b: "CHR ''+'' \<notin> set b" by (rule one_plus)
  from assms(1) v have da: "CHR ''-'' \<notin> set a" by auto
  have name: "replaceFirst v ''+'' ''-ea.'' = a @ ''-ea.'' @ b"
    using splitFirst_first [of "''+''" a b] a by (simp add: replaceFirst_def v)
  have s1: "replaceFirst (a @ ''-ea.'' @ b) ''-ea.'' ''+'' = v"
    using splitFirst_first [of "''-ea.''" a b] da by (simp add: replaceFirst_def v)
  have inc: "includesStr v ''+''" using True by (simp add: includesStr_single)
  show ?thesis unfolding normalizeVersionString_def if_P [OF inc] name s1
    using assms(1) by (simp add: no_dash)
qed

lemma stable_name_reads_stable:
  assumes "CHR ''-'' \<notin> set v" and "count_list v CHR ''+'' \<le> 1"
  shows "includesStr (replaceFirst v ''+'' ''-'') ''-ea'' = includesStr v ''+ea''"
proof (cases "CHR ''+'' \<in> set v")
  case False
  then have "replaceFirst v ''+'' ''-'' = v"
    by (simp add: replaceFirst_def splitFirst_absent [of "CHR ''+''"])
  moreover from assms(1) have "\<not> includesStr v ''-ea''"
    by (simp add: splitFirst_None_iff [symmetric] splitFirst_absent [of "CHR ''-''"])
  moreover from False have "\<not> includesStr v ''+ea''"
    by (simp add: splitFirst_None_iff [symmetric] splitFirst_absent [of "CHR ''+''"])
  ultimately show ?thesis by simp
next
  case True
  with assms(2) obtain a b where v: "v = a @ ''+'' @ b" and a: "CHR ''+'' \<notin> set a"
    and b: "CHR ''+'' \<notin> set b" by (rule one_plus)
  from assms(1) v have da: "CHR ''-'' \<notin> set a" and db: "CHR ''-'' \<notin> set b" by auto
  have name: "replaceFirst v ''+'' ''-'' = a @ CHR ''-'' # b"
    using splitFirst_first [of "''+''" a b] a by (simp add: replaceFirst_def v)
  have l: "includesStr (a @ CHR ''-'' # b) ''-ea'' = prefix ''ea'' b"
    using splitFirst_None_iff [of "a @ CHR ''-'' # b" "''-ea''"]
    by (simp add: splitFirst_single [OF da db] split: if_splits)
  have r: "includesStr (a @ CHR ''+'' # b) ''+ea'' = prefix ''ea'' b"
    using splitFirst_None_iff [of "a @ CHR ''+'' # b" "''+ea''"]
    by (simp add: splitFirst_single [OF a b] split: if_splits)
  show ?thesis unfolding name l using r by (simp add: v)
qed

lemma early_access_name_reads_early:
  "includesStr (if includesStr v ''+'' then replaceFirst v ''+'' ''-ea.'' else v @ ''-ea'') ''-ea''"
proof (cases "CHR ''+'' \<in> set v")
  case False
  have "v @ ''-ea'' = v @ ''-ea'' @ []" by simp
  then have "sublist ''-ea'' (v @ ''-ea'')" unfolding sublist_def by blast
  with False show ?thesis by (simp add: includesStr_single) (simp add: includesStr_sublist)
next
  case True
  then obtain a b where v: "v = a @ CHR ''+'' # b" and a: "CHR ''+'' \<notin> set a"
    by (meson split_list_first)
  have name: "replaceFirst v ''+'' ''-ea.'' = a @ ''-ea.'' @ b"
    using splitFirst_first [of "''+''" a b] a by (simp add: replaceFirst_def v)
  have "a @ ''-ea.'' @ b = a @ ''-ea'' @ (CHR ''.'' # b)" by simp
  then have "sublist ''-ea'' (a @ ''-ea.'' @ b)" unfolding sublist_def by blast
  then have "includesStr (a @ ''-ea.'' @ b) ''-ea''" by (simp only: includesStr_sublist)
  moreover have inc: "includesStr v ''+''" using True by (simp add: includesStr_single)
  ultimately show ?thesis unfolding if_P [OF inc] name by simp
qed

lemma findCachedTool_nonempty:
  "findCachedTool h w toolName versionStr architecture = Some toolPath \<Longrightarrow> toolPath \<noteq> []"
  by (auto simp: findCachedTool_def existsSync_def Let_def split: if_splits option.splits)

text \<open>
  C10 as stated fails in two ways. Corretto's version \<^verbatim>\<open>11.0.21.9.1\<close> has no \<^verbatim>\<open>-\<close> and
  no \<^verbatim>\<open>+\<close> and is stable, as the installer is; its name round-trips, but a later search
  of a cache that holds just this JDK finds nothing, because the tool cache lists
  explicit semver versions only. The version \<^verbatim>\<open>11.0.2+ea\<close> has no \<^verbatim>\<open>-\<close> and one \<^verbatim>\<open>+\<close>
  and is stable as \<^verbatim>\<open>parseVersion\<close> reads stability (no \<^verbatim>\<open>-ea\<close> at its end, no
  \<^verbatim>\<open>-ea.\<close> inside); for a stable installer its cached name is \<^verbatim>\<open>11.0.2-ea\<close>, which
  normalizes to \<^verbatim>\<open>11.0.2\<close>.
\<close>

theorem cache_search_counterexample:
  "CHR ''-'' \<notin> set ''11.0.21.9.1'' \<and> count_list ''11.0.21.9.1'' CHR ''+'' \<le> 1
   \<and> isStableRelease stableInstaller
   \<and> \<not> endsWith ''11.0.21.9.1'' ''-ea'' \<and> \<not> includesStr ''11.0.21.9.1'' ''-ea.''
   \<and> normalizeVersionString (formatCacheVersionName stableInstaller ''11.0.21.9.1'') = ''11.0.21.9.1''
   \<and> searchToolCache (linuxHost (inputsOf []) silent)
        (cacheWorld [formatCacheVersionName stableInstaller ''11.0.21.9.1'']) stableInstaller
      = Inr None
   \<and> CHR ''-'' \<notin> set ''11.0.2+ea'' \<and> count_list ''11.0.2+ea'' CHR ''+'' \<le> 1
   \<and> \<not> endsWith ''11.0.2+ea'' ''-ea'' \<and> \<not> includesStr ''11.0.2+ea'' ''-ea.''
   \<and> normalizeVersionString (formatCacheVersionName stableInstaller ''11.0.2+ea'') = ''11.0.2''"
  by code_simp

text \<open>
  C10, amended. For a version without \<^verbatim>\<open>-\<close> and with at most one \<^verbatim>\<open>+\<close>, and for a
  stable installer without \<^verbatim>\<open>+ea\<close>, normalizing the name that
  \<^verbatim>\<open>formatCacheVersionName\<close> produces gives the version back, and the cache search reads
  the installer's stability off that name. A cache listing that holds the name yields an
  entry of that version. A search of a cache that lists just that name returns that
  version, with the directory found for the name, exactly when the version is compatible
  with the version the installer asks for and the directory is found; otherwise it
  returns nothing, or throws where the compatibility check throws.
\<close>

theorem cache_name_round_trip_and_search:
  assumes "CHR ''-'' \<notin> set v" and "count_list v CHR ''+'' \<le> 1"
    and "isStableRelease inst \<longrightarrow> \<not> includesStr v ''+ea''"
  shows "normalizeVersionString (formatCacheVersionName inst v) = v
    \<and> (\<not> includesStr (formatCacheVersionName inst v) ''-ea'') = isStableRelease inst
    \<and> (\<forall>(h::host) w names.
          findAllVersions h w (cachedToolDirectory inst) (systemArchitecture inst) = Inr names
          \<and> formatCacheVersionName inst v \<in> set names
          \<longrightarrow> (\<exists>entries. getCachedVersionsList h w inst = Inr entries
                 \<and> (\<exists>entry \<in> set entries. version entry = v)))
    \<and> (\<forall>(h::host) w.
          findAllVersions h w (cachedToolDirectory inst) (systemArchitecture inst)
            = Inr [formatCacheVersionName inst v]
          \<longrightarrow> searchToolCache h w inst =
                (case checkVersionCompatibility h (jdkVersion inst) v of
                   Inl e \<Rightarrow> Inl e
                 | Inr compatible \<Rightarrow>
                     (case findCachedTool h w (cachedToolDirectory inst)
                             (formatCacheVersionName inst v) (systemArchitecture inst) of
                        None \<Rightarrow> Inr None
                      | Some toolPath \<Rightarrow>
                          if compatible then Inr (Some \<lparr> version = v, path = toolPath \<rparr>)
                          else Inr None)))"
proof (intro conjI allI impI)
  show rt: "normalizeVersionString (formatCacheVersionName inst v) = v"
  proof (cases "isStableRelease inst")
    case True
    with assms(3) have "\<not> includesStr (replaceFirst v ''+'' ''-'') ''-ea''"
      by (simp add: stable_name_reads_stable [OF assms(1,2)])
    from stable_round_trip [OF assms(1,2) this] True show ?thesis
      by (simp add: formatCacheVersionName_def)
  next
    case False
    with early_access_round_trip [OF assms(1,2)] show ?thesis
      by (simp add: formatCacheVersionName_def)
  qed
  show st: "(\<not> includesStr (formatCacheVersionName inst v) ''-ea'') = isStableRelease inst"
  proof (cases "isStableRelease inst")
    case True
    with assms(3) show ?thesis
      by (simp add: formatCacheVersionName_def stable_name_reads_stable [OF assms(1,2)])
  next
    case False
    with early_access_name_reads_early [of v] show ?thesis
      by (simp add: formatCacheVersionName_def)
  qed
  let ?entry = "\<lambda>(h::host) w versionStr.
      \<lparr> version = normalizeVersionString versionStr,
        path = (case findCachedTool h w (cachedToolDirectory inst) versionStr
                        (systemArchitecture inst) of
                  None \<Rightarrow> [] | Some toolPath \<Rightarrow> toolPath),
        stable = \<not> includesStr versionStr ''-ea'' \<rparr>"
  {
    fix h :: host and w names
    assume listed: "findAllVersions h w (cachedToolDirectory inst) (systemArchitecture inst) = Inr names
            \<and> formatCacheVersionName inst v \<in> set names"
    have "getCachedVersionsList h w inst
        = Inr (filter (\<lambda>entry. stable entry = isStableRelease inst) (map (?entry h w) names))"
      using listed by (simp add: getCachedVersionsList_def)
    moreover have "?entry h w (formatCacheVersionName inst v)
        \<in> set (filter (\<lambda>entry. stable entry = isStableRelease inst) (map (?entry h w) names))"
      using listed st by auto
    moreover have "version (?entry h w (formatCacheVersionName inst v)) = v"
      using rt by simp
    ultimately show "\<exists>entries. getCachedVersionsList h w inst = Inr entries
                   \<and> (\<exists>entry \<in> set entries. version entry = v)"
      by blast
  }
  {
    fix h :: host and w
    assume only: "findAllVersions h w (cachedToolDirectory inst) (systemArchitecture inst)
            = Inr [formatCacheVersionName inst v]"
    let ?found = "findCachedTool h w (cachedToolDirectory inst) (formatCacheVersionName inst v)
                    (systemArchitecture inst)"
    let ?e = "\<lparr> version = v, path = (case ?found of None \<Rightarrow> [] | Some toolPath \<Rightarrow> toolPath),
                 stable = isStableRelease inst \<rparr>"
    have listing: "getCachedVersionsList h w inst = Inr [?e]"
      using only st rt by (simp add: getCachedVersionsList_def)
    have sorted: "filterAndSortVersions h inst [?e] =
        (case checkVersionCompatibility h (jdkVersion inst) v of
           Inl e \<Rightarrow> Inl e
         | Inr compatible \<Rightarrow>
             Inr (if compatible \<and> ?found \<noteq> None then [?e] else []))"
      by (auto simp: filterAndSortVersions_def split: sum.splits option.splits
          dest: findCachedTool_nonempty)
    show "searchToolCache h w inst =
                (case checkVersionCompatibility h (jdkVersion inst) v of
                   Inl e \<Rightarrow> Inl e
                 | Inr compatible \<Rightarrow>
                     (case ?found of
                        None \<Rightarrow> Inr None
                      | Some toolPath \<Rightarrow>
                          if compatible then Inr (Some \<lparr> version = v, path = toolPath \<rparr>)
                          else Inr None))"
      unfolding searchToolCache_def listing sum.case sorted
      by (auto split: sum.splits option.splits)
  }
qed

theorem cache_name_round_trip_and_search_witness:
  "CHR ''-'' \<notin> set ''11.0.2+9'' \<and> count_list ''11.0.2+9'' CHR ''+'' \<le> 1
   \<and> isStableRelease stableInstaller \<and> \<not> includesStr ''11.0.2+9'' ''+ea''
   \<and> formatCacheVersionName stableInstaller ''11.0.2+9'' = ''11.0.2-9''
   \<and> normalizeVersionString ''11.0.2-9'' = ''11.0.2+9''
   \<and> searchToolCache (linuxHost (inputsOf []) silent) (cacheWorld [''11.0.2-9'']) stableInstaller
        = Inr (Some \<lparr> version = ''11.0.2+9'', path = ''/tc/Java_Corretto_jdk/11.0.2-9/x64'' \<rparr>)
   \<and> formatCacheVersionName (stableInstaller\<lparr>isStableRelease := False\<rparr>) ''11.0.2+9''
        = ''11.0.2-ea.9''
   \<and> normalizeVersionString ''11.0.2-ea.9'' = ''11.0.2+9''
   \<and> searchToolCache (linuxHost (inputsOf []) silent) (cacheWorld [''11.0.2-ea.9''])
        (stableInstaller\<lparr>isStableRelease := False\<rparr>)
        = Inr (Some \<lparr> version = ''11.0.2+9'', path = ''/tc/Java_Corretto_jdk/11.0.2-ea.9/x64'' \<rparr>)"
proof -
  let ?h = "linuxHost (inputsOf []) silent"
  let ?ea = "stableInstaller\<lparr>isStableRelease := False\<rparr>"
  have h1: "CHR ''-'' \<notin> set ''11.0.2+9''"
    by simp
  have h2: "count_list ''11.0.2+9'' CHR ''+'' \<le> 1"
    by simp
  have plain: "\<not> includesStr ''11.0.2+9'' ''+ea''"
    by code_simp
  then have h3: "isStableRelease stableInstaller \<longrightarrow> \<not> includesStr ''11.0.2+9'' ''+ea''"
    by simp
  have h4: "isStableRelease ?ea \<longrightarrow> \<not> includesStr ''11.0.2+9'' ''+ea''"
    by code_simp
  have st: "isStableRelease stableInstaller"
    by code_simp
  have f1: "formatCacheVersionName stableInstaller ''11.0.2+9'' = ''11.0.2-9''"
    by code_simp
  have f2: "formatCacheVersionName ?ea ''11.0.2+9'' = ''11.0.2-ea.9''"
    by code_simp
  note stable_facts = cache_name_round_trip_and_search [OF h1 h2 h3]
  note early_facts = cache_name_round_trip_and_search [OF h1 h2 h4]
  from stable_facts f1 have r1: "normalizeVersionString ''11.0.2-9'' = ''11.0.2+9''"
    by simp
  from early_facts f2 have r2: "normalizeVersionString ''11.0.2-ea.9'' = ''11.0.2+9''"
    by simp
  have l1: "findAllVersions ?h (cacheWorld [''11.0.2-9'']) (cachedToolDirectory stableInstaller)
              (systemArchitecture stableInstaller)
            = Inr [formatCacheVersionName stableInstaller ''11.0.2+9'']"
    by code_simp
  have c1: "checkVersionCompatibility ?h (jdkVersion stableInstaller) ''11.0.2+9'' = Inr True"
    by code_simp
  have p1: "findCachedTool ?h (cacheWorld [''11.0.2-9'']) (cachedToolDirectory stableInstaller)
              (formatCacheVersionName stableInstaller ''11.0.2+9'')
              (systemArchitecture stableInstaller)
            = Some ''/tc/Java_Corretto_jdk/11.0.2-9/x64''"
    by code_simp
  from stable_facts l1 have "searchToolCache ?h (cacheWorld [''11.0.2-9'']) stableInstaller =
      (case checkVersionCompatibility ?h (jdkVersion stableInstaller) ''11.0.2+9'' of
         Inl e \<Rightarrow> Inl e
       | Inr compatible \<Rightarrow>
           (case findCachedTool ?h (cacheWorld [''11.0.2-9'']) (cachedToolDirectory stableInstaller)
                   (formatCacheVersionName stableInstaller ''11.0.2+9'')
                   (systemArchitecture stableInstaller) of
              None \<Rightarrow> Inr None
            | Some toolPath \<Rightarrow>
                if compatible then Inr (Some \<lparr> version = ''11.0.2+9'', path = toolPath \<rparr>)
                else Inr None))"
    by blast
  then have s1: "searchToolCache ?h (cacheWorld [''11.0.2-9'']) stableInstaller
        = Inr (Some \<lparr> version = ''11.0.2+9'', path = ''/tc/Java_Corretto_jdk/11.0.2-9/x64'' \<rparr>)"
    by (simp only: c1 p1 sum.case option.case if_True)
  have l2: "findAllVersions ?h (cacheWorld [''11.0.2-ea.9'']) (cachedToolDirectory ?ea)
              (systemArchitecture ?ea)
            = Inr [formatCacheVersionName ?ea ''11.0.2+9'']"
    by code_simp
  have c2: "checkVersionCompatibility ?h (jdkVersion ?ea) ''11.0.2+9'' = Inr True"
    by code_simp
  have p2: "findCachedTool ?h (cacheWorld [''11.0.2-ea.9'']) (cachedToolDirectory ?ea)
              (formatCacheVersionName ?ea ''11.0.2+9'') (systemArchitecture ?ea)
            = Some ''/tc/Java_Corretto_jdk/11.0.2-ea.9/x64''"
    by code_simp
  from early_facts l2 have "searchToolCache ?h (cacheWorld [''11.0.2-ea.9'']) ?ea =
      (case checkVersionCompatibility ?h (jdkVersion ?ea) ''11.0.2+9'' of
         Inl e \<Rightarrow> Inl e
       | Inr compatible \<Rightarrow>
           (case findCachedTool ?h (cacheWorld [''11.0.2-ea.9'']) (cachedToolDirectory ?ea)
                   (formatCacheVersionName ?ea ''11.0.2+9'') (systemArchitecture ?ea) of
              None \<Rightarrow> Inr None
            | Some toolPath \<Rightarrow>
                if compatible then Inr (Some \<lparr> version = ''11.0.2+9'', path = toolPath \<rparr>)
                else Inr None))"
    by blast
  then have s2: "searchToolCache ?h (cacheWorld [''11.0.2-ea.9'']) ?ea
        = Inr (Some \<lparr> version = ''11.0.2+9'', path = ''/tc/Java_Corretto_jdk/11.0.2-ea.9/x64'' \<rparr>)"
    by (simp only: c2 p2 sum.case option.case if_True)
  from h1 h2 st plain f1 r1 s1 f2 r2 s2 show ?thesis by blast
qed

section \<open>The execution controller\<close>

lemma detectExecutionErrors_iff:
  "detectExecutionErrors output \<longleftrightarrow>
     (\<exists>m \<in> set errorPatterns. (\<exists>front back. stdout output = front @ m @ back)
                            \<or> (\<exists>front back. stderr output = front @ m @ back))"
  unfolding detectExecutionErrors_def list_ex_iff includesStr_sublist sublist_def by blast

lemma hasExecutionError_detect: "hasExecutionError output = detectExecutionErrors output"
  by (simp add: hasExecutionError_def detectExecutionErrors_def)

lemma main_after_setup:
  assumes "\<not> subscriptionDenied h"
    and "assembleCommandString h w (getInput h ''command'') = Inr (commandParameters, w1)"
    and "setupJavaEnvironment h w1 = Inr (javaPath, w2)"
    and "initialize h w2 = Inr (initialized, w3)"
    and "toolCommand = replaceAll initialized ''${{ JAVA_HOME }}'' (javaPath @ ''/bin/java'')"
  shows "main h w =
     (case (if getInput h ''command'' = ''batch_sign''
               \<and> toUpperCase (getInput h ''malware_block'') = ''TRUE''
            then performMalwareScan h w3 toolCommand (getInput h ''command'')
            else Inr (True, w3)) of
        Inl e \<Rightarrow> Caught (message e)
      | Inr (scanSuccess, w4) \<Rightarrow>
          if \<not> scanSuccess then Failed genericFailure w4
          else
            (case getExecOutput h (events w4) (toolCommand @ '' '' @ commandParameters) of
               Inl e \<Rightarrow> Caught (message e)
             | Inr executionResult \<Rightarrow>
                 (case performLogCleanup h
                         (w4\<lparr>events := events w4 @ [Executed (toolCommand @ '' '' @ commandParameters)]\<rparr>)
                         (toolCommand @ '' '' @ commandParameters) of
                    Inl e \<Rightarrow> Caught (message e)
                  | Inr w5 \<Rightarrow>
                      if detectExecutionErrors executionResult then Failed genericFailure w5
                      else Completed (setOutput w5 ''CodeSigner'' (ExecResult executionResult)))))"
  using assms(1)
  by (simp only: main_def Let_def assms(2,3,4) assms(5) [symmetric] sum.case prod.case if_False)
     (simp split: sum.splits prod.splits)


lemma hasExecutionError_iff:
  "hasExecutionError output \<longleftrightarrow>
     (\<exists>m \<in> set errorPatterns. (\<exists>front back. stdout output = front @ m @ back)
                            \<or> (\<exists>front back. stderr output = front @ m @ back))"
  by (simp only: hasExecutionError_detect detectExecutionErrors_iff)





lemma appendParameter_batch_scan_key:
  "k \<in> set [''username'', ''password'', ''credential_id'', ''program_name''] \<Longrightarrow>
   appendParameter h w k cmd ''batch_sign''
     = Inr (cmd @ (if fetchInputValue h w k = [] then [] else flagFragment h w k), w)"
  by (auto simp: appendParameter_def flagFragment_def isSupported_def COMMAND_PARAMETERS_def Let_def)

lemma buildScanCommand_batch:
  "buildScanCommand h w ''batch_sign''
     = Inr (''scan_code'' @ concat (map (flagFragment h w)
              (filter (\<lambda>k. fetchInputValue h w k \<noteq> [])
                 [''username'', ''password'', ''credential_id'', ''program_name''])), w)"
  by (simp add: buildScanCommand_def appendParameter_batch_scan_key)

lemma scanEntries_stops:
  assumes "\<forall>i < length passed. \<exists>out.
             getExecOutput h
               (events w @ map (\<lambda>entry. Executed (completeScanCmd h base scan dir entry)) (take i passed))
               (completeScanCmd h base scan dir (passed ! i)) = Inr out
             \<and> \<not> hasExecutionError out"
    and "getExecOutput h
           (events w @ map (\<lambda>entry. Executed (completeScanCmd h base scan dir entry)) passed)
           (completeScanCmd h base scan dir bad) = Inr flagged"
    and "hasExecutionError flagged"
  shows "scanEntries h w base scan dir (passed @ bad # rest)
     = Inr (False, w\<lparr>events := events w
              @ map (\<lambda>entry. Executed (completeScanCmd h base scan dir entry)) (passed @ [bad])\<rparr>)"
  using assms
proof (induction passed arbitrary: w)
  case Nil
  then show ?case by simp
next
  case (Cons x passed)
  let ?w = "w\<lparr>events := events w @ [Executed (completeScanCmd h base scan dir x)]\<rparr>"
  from Cons.prems(1) [rule_format, of 0] obtain out where
    first: "getExecOutput h (events w) (completeScanCmd h base scan dir x) = Inr out"
      "\<not> hasExecutionError out" by auto
  have later: "\<forall>i < length passed. \<exists>out.
             getExecOutput h
               (events ?w @ map (\<lambda>entry. Executed (completeScanCmd h base scan dir entry)) (take i passed))
               (completeScanCmd h base scan dir (passed ! i)) = Inr out
             \<and> \<not> hasExecutionError out"
  proof (intro allI impI)
    fix i assume "i < length passed"
    then have "Suc i < length (x # passed)" by simp
    from Cons.prems(1) [rule_format, OF this] show "\<exists>out.
             getExecOutput h
               (events ?w @ map (\<lambda>entry. Executed (completeScanCmd h base scan dir entry)) (take i passed))
               (completeScanCmd h base scan dir (passed ! i)) = Inr out
             \<and> \<not> hasExecutionError out" by simp
  qed
  have last: "getExecOutput h
           (events ?w @ map (\<lambda>entry. Executed (completeScanCmd h base scan dir entry)) passed)
           (completeScanCmd h base scan dir bad) = Inr flagged"
    using Cons.prems(2) by simp
  from Cons.IH [OF later last Cons.prems(3)] first show ?case by simp
qed


text \<open>
  C3. For batch signing with malware scanning enabled, the entries of the input directory
  are scanned one at a time in directory order, each with a command that carries the
  username, password, credential id and program name and that entry's path. At the
  first scan whose output contains an error marker the run ends as failed: the commands
  executed are the scans of the entries up to and including that one, none of them is
  the signing command, and no later entry is scanned.
\<close>

theorem malware_scan_stops_at_first_failure:
  assumes "\<not> subscriptionDenied h"
    and "getInput h ''command'' = ''batch_sign''"
    and "toUpperCase (getInput h ''malware_block'') = ''TRUE''"
    and "assembleCommandString h w ''batch_sign'' = Inr (commandParameters, w1)"
    and "setupJavaEnvironment h w1 = Inr (javaPath, w2)"
    and "initialize h w2 = Inr (initialized, w3)"
    and "toolCommand = replaceAll initialized ''${{ JAVA_HOME }}'' (javaPath @ ''/bin/java'')"
    and "scanCommand = ''scan_code'' @ concat (map (flagFragment h w3)
           (filter (\<lambda>k. fetchInputValue h w3 k \<noteq> [])
              [''username'', ''password'', ''credential_id'', ''program_name'']))"
    and "targetDirectory = pathNormalize h (fetchInputValue h w3 ''dir_path'')"
    and "readdirSync h w3 targetDirectory = Inr (passed @ bad # rest)"
    and "\<forall>i < length passed. \<exists>out.
           getExecOutput h
             (events w3 @ map (\<lambda>entry. Executed (completeScanCmd h toolCommand scanCommand
                                                   targetDirectory entry)) (take i passed))
             (completeScanCmd h toolCommand scanCommand targetDirectory (passed ! i)) = Inr out
           \<and> \<not> hasExecutionError out"
    and "getExecOutput h
           (events w3 @ map (\<lambda>entry. Executed (completeScanCmd h toolCommand scanCommand
                                                 targetDirectory entry)) passed)
           (completeScanCmd h toolCommand scanCommand targetDirectory bad) = Inr flagged"
    and "hasExecutionError flagged"
  shows "main h w = Failed genericFailure
           (w3\<lparr>events := events w3
                 @ map (\<lambda>entry. Executed (completeScanCmd h toolCommand scanCommand
                                            targetDirectory entry)) (passed @ [bad])\<rparr>)
    \<and> buildScanCommand h w3 ''batch_sign'' = Inr (scanCommand, w3)
    \<and> (\<forall>entry. completeScanCmd h toolCommand scanCommand targetDirectory entry
          = toolCommand @ '' '' @ scanCommand @ '' -input_file_path='' @ [dq]
            @ pathJoin h [targetDirectory, entry] @ [dq])
    \<and> (\<forall>entry. completeScanCmd h toolCommand scanCommand targetDirectory entry
          \<noteq> toolCommand @ '' '' @ commandParameters)
    \<and> (\<forall>output. hasExecutionError output \<longleftrightarrow>
          (\<exists>m \<in> set [''Error'', ''Exception'', ''Missing required option'',
                       ''Unmatched arguments from'', ''Unmatched argument''].
              (\<exists>front back. stdout output = front @ m @ back)
              \<or> (\<exists>front back. stderr output = front @ m @ back)))"
proof (intro conjI allI)
  have build: "buildScanCommand h w3 ''batch_sign'' = Inr (scanCommand, w3)"
    by (simp only: buildScanCommand_batch assms(8))
  then show "buildScanCommand h w3 ''batch_sign'' = Inr (scanCommand, w3)" .
  have scan: "performMalwareScan h w3 toolCommand ''batch_sign''
      = Inr (False, w3\<lparr>events := events w3
                 @ map (\<lambda>entry. Executed (completeScanCmd h toolCommand scanCommand
                                            targetDirectory entry)) (passed @ [bad])\<rparr>)"
    by (simp only: performMalwareScan_def build sum.case prod.case Let_def
        assms(9) [symmetric] assms(10) scanEntries_stops [OF assms(11,12,13)])
  show "main h w = Failed genericFailure
           (w3\<lparr>events := events w3
                 @ map (\<lambda>entry. Executed (completeScanCmd h toolCommand scanCommand
                                            targetDirectory entry)) (passed @ [bad])\<rparr>)"
    using assms(4) unfolding assms(2) [symmetric]
    by (simp add: main_after_setup [OF assms(1) _ assms(5,6,7)] assms(2,3) scan)
  show "completeScanCmd h toolCommand scanCommand targetDirectory entry
          = toolCommand @ '' '' @ scanCommand @ '' -input_file_path='' @ [dq]
            @ pathJoin h [targetDirectory, entry] @ [dq]" for entry
    by (simp add: completeScanCmd_def)
  from assms(4) have "commandParameters = getInput h ''command''
      @ concat (map (flagFragment h w)
          (filter (\<lambda>k. fetchInputValue h w k \<noteq> [] \<and> isSupported ''batch_sign'' k) candidateKeys))"
    unfolding assembleCommandString_def by (rule appendParameters_shape [THEN conjunct1])
  then obtain tail where params: "commandParameters = ''batch_sign'' @ tail"
    using assms(2) by simp
  show "completeScanCmd h toolCommand scanCommand targetDirectory entry
          \<noteq> toolCommand @ '' '' @ commandParameters" for entry
    by (simp add: completeScanCmd_def params assms(8))
  show "hasExecutionError printed \<longleftrightarrow>
          (\<exists>m \<in> set [''Error'', ''Exception'', ''Missing required option'',
                       ''Unmatched arguments from'', ''Unmatched argument''].
              (\<exists>front back. stdout printed = front @ m @ back)
              \<or> (\<exists>front back. stderr printed = front @ m @ back))" for printed
    using hasExecutionError_iff [of printed] by (simp only: errorPatterns_def)
qed


theorem malware_scan_stops_at_first_failure_witness:
  "main (linuxHost batchScanInputs flagging) signingWorld
     = Failed genericFailure
         ((configuredWorld PROD_ENV_SETTINGS)\<lparr>events :=
            [Executed (javaCommand @ '' '' @ scanParameters @ '' -input_file_path='' @ [dq]
                       @ ''dist/a.exe'' @ [dq]),
             Executed (javaCommand @ '' '' @ scanParameters @ '' -input_file_path='' @ [dq]
                       @ ''dist/b.exe'' @ [dq])]\<rparr>)
   \<and> readdirSync (linuxHost batchScanInputs flagging) (configuredWorld PROD_ENV_SETTINGS) ''dist''
     = Inr [''a.exe'', ''b.exe'', ''c.exe'']"
proof -
  let ?h = "linuxHost batchScanInputs flagging"
  let ?w3 = "configuredWorld PROD_ENV_SETTINGS"
  let ?scan = "\<lambda>entry. Executed (completeScanCmd ?h javaCommand scanParameters ''dist'' entry)"
  have a1: "\<not> subscriptionDenied ?h" by code_simp
  have a2: "getInput ?h ''command'' = ''batch_sign''" by code_simp
  have a3: "toUpperCase (getInput ?h ''malware_block'') = ''TRUE''" by code_simp
  have a4: "assembleCommandString ?h signingWorld ''batch_sign'' = Inr (batchParameters, signingWorld)"
    by code_simp
  have a5: "setupJavaEnvironment ?h signingWorld = Inr (''/opt/java'', signingWorld)"
    by code_simp
  have a6: "initialize ?h signingWorld = Inr (javaTemplate, ?w3)" by code_simp
  have a7: "javaCommand = replaceAll javaTemplate ''${{ JAVA_HOME }}'' (''/opt/java'' @ ''/bin/java'')"
    by code_simp
  have a8: "scanParameters = ''scan_code'' @ concat (map (flagFragment ?h ?w3)
           (filter (\<lambda>k. fetchInputValue ?h ?w3 k \<noteq> [])
              [''username'', ''password'', ''credential_id'', ''program_name'']))"
    by code_simp
  have a9: "''dist'' = pathNormalize ?h (fetchInputValue ?h ?w3 ''dir_path'')" by code_simp
  have listing: "readdirSync ?h ?w3 ''dist'' = Inr [''a.exe'', ''b.exe'', ''c.exe'']"
    by code_simp
  then have a10: "readdirSync ?h ?w3 ''dist'' = Inr ([''a.exe''] @ ''b.exe'' # [''c.exe''])"
    by simp
  have first: "getExecOutput ?h (events ?w3 @ map ?scan (take 0 [''a.exe'']))
      (completeScanCmd ?h javaCommand scanParameters ''dist'' ([''a.exe''] ! 0)) = Inr clean"
    by code_simp
  have passes: "\<not> hasExecutionError clean" by code_simp
  have a11: "\<forall>i < length [''a.exe'']. \<exists>out.
      getExecOutput ?h (events ?w3 @ map ?scan (take i [''a.exe'']))
        (completeScanCmd ?h javaCommand scanParameters ''dist'' ([''a.exe''] ! i)) = Inr out
      \<and> \<not> hasExecutionError out"
  proof (intro allI impI)
    fix i :: nat
    assume "i < length [''a.exe'']"
    then have "i = 0" by simp
    with first passes show "\<exists>out.
      getExecOutput ?h (events ?w3 @ map ?scan (take i [''a.exe'']))
        (completeScanCmd ?h javaCommand scanParameters ''dist'' ([''a.exe''] ! i)) = Inr out
      \<and> \<not> hasExecutionError out" by blast
  qed
  have a12: "getExecOutput ?h (events ?w3 @ map ?scan [''a.exe''])
      (completeScanCmd ?h javaCommand scanParameters ''dist'' ''b.exe'') = Inr infected"
    by code_simp
  have a13: "hasExecutionError infected" by code_simp
  have trace: "?w3\<lparr>events := events ?w3 @ map ?scan ([''a.exe''] @ [''b.exe''])\<rparr>
      = ?w3\<lparr>events :=
            [Executed (javaCommand @ '' '' @ scanParameters @ '' -input_file_path='' @ [dq]
                       @ ''dist/a.exe'' @ [dq]),
             Executed (javaCommand @ '' '' @ scanParameters @ '' -input_file_path='' @ [dq]
                       @ ''dist/b.exe'' @ [dq])]\<rparr>"
    by code_simp
  from malware_scan_stops_at_first_failure [OF a1 a2 a3 a4 a5 a6 a7 a8 a9 a10 a11 a12 a13]
  have "main ?h signingWorld = Failed genericFailure
      (?w3\<lparr>events := events ?w3 @ map ?scan ([''a.exe''] @ [''b.exe''])\<rparr>)"
    by blast
  with trace listing show ?thesis by simp
qed


section \<open>Versions and the tool cache\<close>

text \<open>
  C6. When the range is a valid exact version with build metadata,
  \<^verbatim>\<open>checkVersionCompatibility\<close> is true exactly when \<^verbatim>\<open>compareBuild\<close> of the range and
  the candidate is 0 (and false exactly when it is another number; an invalid candidate
  makes \<^verbatim>\<open>compareBuild\<close> throw). Otherwise it is what \<^verbatim>\<open>satisfies\<close> says of the
  candidate and the range. With the semver package: \<^verbatim>\<open>11.0.2+9\<close> is compatible with
  \<^verbatim>\<open>11.0.2+9\<close> and not with \<^verbatim>\<open>11.0.2+10\<close>, and \<^verbatim>\<open>11.5.0\<close> is compatible with
  \<^verbatim>\<open>11\<close>.
\<close>

theorem version_compatibility:
  "((\<exists>v. svValid (semver h) versionRange = Some v \<and> v \<noteq> [])
       \<and> (\<exists>parsed. svParse (semver h) versionRange = Some parsed \<and> build parsed \<noteq> [])
     \<longrightarrow> (checkVersionCompatibility h versionRange candidate = Inr True
            \<longleftrightarrow> svCompareBuild (semver h) versionRange candidate = Inr 0)
         \<and> (checkVersionCompatibility h versionRange candidate = Inr False
            \<longleftrightarrow> (\<exists>c. svCompareBuild (semver h) versionRange candidate = Inr c \<and> c \<noteq> 0)))
   \<and> (\<not> ((\<exists>v. svValid (semver h) versionRange = Some v \<and> v \<noteq> [])
          \<and> (\<exists>parsed. svParse (semver h) versionRange = Some parsed \<and> build parsed \<noteq> []))
     \<longrightarrow> checkVersionCompatibility h versionRange candidate
           = Inr (svSatisfies (semver h) candidate versionRange))
   \<and> checkVersionCompatibility (linuxHost (inputsOf []) silent) ''11.0.2+9'' ''11.0.2+9'' = Inr True
   \<and> checkVersionCompatibility (linuxHost (inputsOf []) silent) ''11.0.2+9'' ''11.0.2+10'' = Inr False
   \<and> checkVersionCompatibility (linuxHost (inputsOf []) silent) ''11'' ''11.5.0'' = Inr True"
proof (intro conjI)
  show "(\<exists>v. svValid (semver h) versionRange = Some v \<and> v \<noteq> [])
       \<and> (\<exists>parsed. svParse (semver h) versionRange = Some parsed \<and> build parsed \<noteq> [])
     \<longrightarrow> (checkVersionCompatibility h versionRange candidate = Inr True
            \<longleftrightarrow> svCompareBuild (semver h) versionRange candidate = Inr 0)
         \<and> (checkVersionCompatibility h versionRange candidate = Inr False
            \<longleftrightarrow> (\<exists>c. svCompareBuild (semver h) versionRange candidate = Inr c \<and> c \<noteq> 0))"
    by (auto simp: checkVersionCompatibility_def Let_def split: option.splits sum.splits)
  show "\<not> ((\<exists>v. svValid (semver h) versionRange = Some v \<and> v \<noteq> [])
          \<and> (\<exists>parsed. svParse (semver h) versionRange = Some parsed \<and> build parsed \<noteq> []))
     \<longrightarrow> checkVersionCompatibility h versionRange candidate
           = Inr (svSatisfies (semver h) candidate versionRange)"
    by (auto simp: checkVersionCompatibility_def Let_def split: option.splits sum.splits)
  show "checkVersionCompatibility (linuxHost (inputsOf []) silent) ''11.0.2+9'' ''11.0.2+9''
      = Inr True"
    by code_simp
  show "checkVersionCompatibility (linuxHost (inputsOf []) silent) ''11.0.2+9'' ''11.0.2+10''
      = Inr False"
    by code_simp
  show "checkVersionCompatibility (linuxHost (inputsOf []) silent) ''11'' ''11.5.0'' = Inr True"
    by code_simp
qed

theorem version_compatibility_witness:
  "svValid nodeSemver ''11.0.2+9'' = Some ''11.0.2''
   \<and> map_option build (svParse nodeSemver ''11.0.2+9'') = Some [''9'']
   \<and> svCompareBuild nodeSemver ''11.0.2+9'' ''11.0.2+9'' = Inr 0
   \<and> checkVersionCompatibility (linuxHost (inputsOf []) silent) ''11.0.2+9'' ''11.0.2+9'' = Inr True
   \<and> svCompareBuild nodeSemver ''11.0.2+9'' ''11.0.2+10'' = Inr (- 1)
   \<and> checkVersionCompatibility (linuxHost (inputsOf []) silent) ''11.0.2+9'' ''11.0.2+10'' = Inr False
   \<and> svValid nodeSemver ''11'' = None
   \<and> svSatisfies nodeSemver ''11.5.0'' ''11''
   \<and> checkVersionCompatibility (linuxHost (inputsOf []) silent) ''11'' ''11.5.0'' = Inr True"
proof -
  let ?h = "linuxHost (inputsOf []) silent"
  have lib: "semver ?h = nodeSemver" by (simp add: linuxHost_def)
  have v: "svValid nodeSemver ''11.0.2+9'' = Some ''11.0.2''" by code_simp
  have b: "map_option build (svParse nodeSemver ''11.0.2+9'') = Some [''9'']" by code_simp
  then obtain parsed where p: "svParse nodeSemver ''11.0.2+9'' = Some parsed" "build parsed \<noteq> []"
    by auto
  have same: "svCompareBuild nodeSemver ''11.0.2+9'' ''11.0.2+9'' = Inr 0" by code_simp
  have other: "svCompareBuild nodeSemver ''11.0.2+9'' ''11.0.2+10'' = Inr (- 1)" by code_simp
  have plain: "svValid nodeSemver ''11'' = None" by code_simp
  have sat: "svSatisfies nodeSemver ''11.5.0'' ''11''" by code_simp
  from version_compatibility [of ?h "''11.0.2+9''" "''11.0.2+9''"] v p same
  have r1: "checkVersionCompatibility ?h ''11.0.2+9'' ''11.0.2+9'' = Inr True"
    unfolding lib by auto
  from version_compatibility [of ?h "''11.0.2+9''" "''11.0.2+10''"] v p other
  have r2: "checkVersionCompatibility ?h ''11.0.2+9'' ''11.0.2+10'' = Inr False"
    unfolding lib by auto
  from version_compatibility [of ?h "''11''" "''11.5.0''"] plain sat
  have r3: "checkVersionCompatibility ?h ''11'' ''11.5.0'' = Inr True"
    unfolding lib by auto
  from v b same r1 other r2 plain sat r3 show ?thesis by blast
qed

lemma insertSorted_ordered:
  assumes link: "\<forall>a \<in> A. \<forall>b \<in> A. \<exists>c. cmp a b = Inr c \<and> (R a b \<longleftrightarrow> c \<le> 0)"
    and total: "\<forall>a \<in> A. \<forall>b \<in> A. R a b \<or> R b a"
    and trans: "\<forall>a \<in> A. \<forall>b \<in> A. \<forall>c \<in> A. R a b \<and> R b c \<longrightarrow> R a c"
    and "x \<in> A" and "set ys \<subseteq> A" and "sorted_wrt R ys"
  shows "\<exists>zs. insertSorted cmp x ys = Inr zs \<and> set zs = insert x (set ys) \<and> sorted_wrt R zs"
  using assms(4-6)
proof (induction ys)
  case Nil
  then show ?case by simp
next
  case (Cons y ys)
  from Cons.prems have y: "y \<in> A" and ys: "set ys \<subseteq> A" and sorted: "sorted_wrt R ys"
    and above: "\<forall>z \<in> set ys. R y z" by auto
  from link Cons.prems(1) y obtain c where c: "cmp x y = Inr c" "R x y \<longleftrightarrow> c \<le> 0" by blast
  show ?case
  proof (cases "c \<le> 0")
    case True
    with c have "R x y" by simp
    with trans above Cons.prems(1) y ys have "\<forall>z \<in> set ys. R x z" by blast
    with True c \<open>R x y\<close> Cons.prems(3) show ?thesis by simp
  next
    case False
    with c have "\<not> R x y" by simp
    with total Cons.prems(1) y have "R y x" by blast
    from Cons.IH [OF Cons.prems(1) ys sorted] obtain zs where
      zs: "insertSorted cmp x ys = Inr zs" "set zs = insert x (set ys)" "sorted_wrt R zs" by blast
    with False c \<open>R y x\<close> above show ?thesis by auto
  qed
qed

lemma jsSort_ordered:
  assumes link: "\<forall>a \<in> A. \<forall>b \<in> A. \<exists>c. cmp a b = Inr c \<and> (R a b \<longleftrightarrow> c \<le> 0)"
    and total: "\<forall>a \<in> A. \<forall>b \<in> A. R a b \<or> R b a"
    and trans: "\<forall>a \<in> A. \<forall>b \<in> A. \<forall>c \<in> A. R a b \<and> R b c \<longrightarrow> R a c"
    and "set xs \<subseteq> A"
  shows "\<exists>zs. jsSort cmp xs = Inr zs \<and> set zs = set xs \<and> sorted_wrt R zs"
  using assms(4)
proof (induction xs)
  case Nil
  then show ?case by simp
next
  case (Cons x xs)
  then obtain sorted_rest where rest: "jsSort cmp xs = Inr sorted_rest"
    "set sorted_rest = set xs" "sorted_wrt R sorted_rest" by auto
  from Cons.prems rest(2) have "x \<in> A" "set sorted_rest \<subseteq> A" by auto
  from insertSorted_ordered [OF link total trans this rest(3)] rest show ?case by auto
qed

lemma filterE_result:
  "filterE keep xs = Inr ys \<Longrightarrow> ys = filter (\<lambda>x. keep x = Inr True) xs"
proof (induction xs arbitrary: ys)
  case Nil
  then show ?case by simp
next
  case (Cons x xs)
  then show ?case by (auto split: sum.splits if_splits)
qed

lemma configureJavaEnvironment_events:
  "events (configureJavaEnvironment h w inst v p) = events w"
  by (simp add: configureJavaEnvironment_def Let_def exportVariable_def addPath_def setOutput_def)

lemma searchToolCache_best:
  assumes "getCachedVersionsList h w inst = Inr cached"
    and "filterE (\<lambda>entry. checkVersionCompatibility h (jdkVersion inst) (version entry)) cached
           = Inr compatible"
    and "candidates = filter (\<lambda>entry. path entry \<noteq> []) compatible"
    and "candidates \<noteq> []"
    and "\<forall>a \<in> set candidates. \<forall>b \<in> set candidates.
           \<exists>c. svCompareBuild (semver h) (version a) (version b) = Inr c"
    and "\<forall>a \<in> set candidates. \<forall>b \<in> set candidates.
           notOlder h (version a) (version b) \<or> notOlder h (version b) (version a)"
    and "\<forall>a \<in> set candidates. \<forall>b \<in> set candidates. \<forall>c \<in> set candidates.
           notOlder h (version a) (version b) \<and> notOlder h (version b) (version c)
           \<longrightarrow> notOlder h (version a) (version c)"
  shows "\<exists>best \<in> set candidates.
           (\<forall>entry \<in> set candidates. notOlder h (version best) (version entry))
           \<and> searchToolCache h w inst = Inr (Some \<lparr> version = version best, path = path best \<rparr>)"
proof -
  let ?cmp = "\<lambda>first second.
       case svCompareBuild (semver h) (version first) (version second) of
         Inl e \<Rightarrow> Inl e
       | Inr c \<Rightarrow> Inr (- c)"
  let ?R = "\<lambda>a b. notOlder h (version a) (version b)"
  have link: "\<forall>a \<in> set candidates. \<forall>b \<in> set candidates.
      \<exists>c. ?cmp a b = Inr c \<and> (?R a b \<longleftrightarrow> c \<le> 0)"
  proof (intro ballI)
    fix a b assume "a \<in> set candidates" "b \<in> set candidates"
    with assms(5) obtain c where "svCompareBuild (semver h) (version a) (version b) = Inr c"
      by blast
    then show "\<exists>c. ?cmp a b = Inr c \<and> (?R a b \<longleftrightarrow> c \<le> 0)"
      by (simp add: notOlder_def)
  qed
  from jsSort_ordered [of "set candidates" ?cmp ?R candidates, OF link assms(6) assms(7)]
  obtain zs where zs: "jsSort ?cmp candidates = Inr zs" "set zs = set candidates"
    "sorted_wrt ?R zs" by auto
  from zs(2) assms(4) obtain best others where split: "zs = best # others"
    by (cases zs) auto
  with zs(2) have best: "best \<in> set candidates" by auto
  have top: "\<forall>entry \<in> set candidates. ?R best entry"
  proof
    fix entry assume "entry \<in> set candidates"
    with zs(2) split have "entry = best \<or> entry \<in> set others" by auto
    moreover from assms(6) best have "?R best best" by blast
    moreover from zs(3) split have "\<forall>e \<in> set others. ?R best e" by simp
    ultimately show "?R best entry" by blast
  qed
  have "filterAndSortVersions h inst cached = Inr (best # others)"
    using zs(1) split by (simp add: filterAndSortVersions_def assms(2) assms(3) [symmetric])
  then have "searchToolCache h w inst = Inr (Some \<lparr> version = version best, path = path best \<rparr>)"
    by (simp add: searchToolCache_def assms(1))
  with best top show ?thesis by blast
qed


text \<open>
  C5. When the cache holds entries that are compatible with the requested version and
  have a path, and the check-latest flag is off, \<^verbatim>\<open>performSetup\<close> returns the version
  of an entry that is at least every such entry under \<^verbatim>\<open>compareBuild\<close> (the comparator
  ordering them consistently), of the installer's stability, with that entry's path (on
  macOS its \<^verbatim>\<open>Contents/Home\<close> when present), and it neither looks up a release nor
  downloads. With the semver package, a cached \<^verbatim>\<open>11.0.2+9\<close> serves a request for
  \<^verbatim>\<open>11\<close>, and of \<^verbatim>\<open>11.0.1+1\<close> and \<^verbatim>\<open>11.0.9+1\<close> the second is taken.
\<close>

theorem cached_jdk_is_reused:
  assumes "\<not> shouldCheckLatest inst"
    and "getCachedVersionsList h w inst = Inr cached"
    and "filterE (\<lambda>entry. checkVersionCompatibility h (jdkVersion inst) (version entry)) cached
           = Inr compatible"
    and "candidates = filter (\<lambda>entry. path entry \<noteq> []) compatible"
    and "candidates \<noteq> []"
    and "\<forall>a \<in> set candidates. \<forall>b \<in> set candidates.
           \<exists>c. svCompareBuild (semver h) (version a) (version b) = Inr c"
    and "\<forall>a \<in> set candidates. \<forall>b \<in> set candidates.
           notOlder h (version a) (version b) \<or> notOlder h (version b) (version a)"
    and "\<forall>a \<in> set candidates. \<forall>b \<in> set candidates. \<forall>c \<in> set candidates.
           notOlder h (version a) (version b) \<and> notOlder h (version b) (version c)
           \<longrightarrow> notOlder h (version a) (version c)"
  shows "(\<exists>best \<in> set candidates.
            (\<forall>entry \<in> set candidates. notOlder h (version best) (version entry))
            \<and> stable best = isStableRelease inst
            \<and> checkVersionCompatibility h (jdkVersion inst) (version best) = Inr True
            \<and> (\<exists>w'. performSetup h w provider inst
                       = Inr (\<lparr> version = version best,
                                path = (if platform h = ''darwin''
                                           \<and> existsSync h w (pathJoin h [path best, JAVA_MAC_PATH_SUFFIX])
                                        then pathJoin h [path best, JAVA_MAC_PATH_SUFFIX]
                                        else path best) \<rparr>, w')
                     \<and> events w' = events w))
    \<and> JdkInstallationBase (linuxHost (inputsOf []) silent) ''Corretto'' = Inr stableInstaller
    \<and> svSatisfies nodeSemver ''11.0.2+9'' ''11''
    \<and> observed (performSetup (linuxHost (inputsOf []) silent) (cacheWorld [''11.0.2-9''])
                  (corretto (linuxHost (inputsOf []) silent)) stableInstaller)
        = Inr (\<lparr> version = ''11.0.2+9'', path = ''/tc/Java_Corretto_jdk/11.0.2-9/x64'' \<rparr>, [])
    \<and> observed (performSetup (linuxHost (inputsOf []) silent)
                  (cacheWorld [''11.0.1-1'', ''11.0.9-1''])
                  (corretto (linuxHost (inputsOf []) silent)) stableInstaller)
        = Inr (\<lparr> version = ''11.0.9+1'', path = ''/tc/Java_Corretto_jdk/11.0.9-1/x64'' \<rparr>, [])"
proof (intro conjI)
  from searchToolCache_best [OF assms(2-8)] obtain best where
    best: "best \<in> set candidates"
    and top: "\<forall>entry \<in> set candidates. notOlder h (version best) (version entry)"
    and found: "searchToolCache h w inst = Inr (Some \<lparr> version = version best, path = path best \<rparr>)"
    by blast
  from filterE_result [OF assms(3)] best assms(4) have
    "best \<in> set cached" and
    ok: "checkVersionCompatibility h (jdkVersion inst) (version best) = Inr True" by auto
  with assms(2) have st: "stable best = isStableRelease inst"
    by (auto simp: getCachedVersionsList_def split: sum.splits)
  let ?home = "pathJoin h [path best, JAVA_MAC_PATH_SUFFIX]"
  let ?installed = "\<lparr> version = version best,
       path = (if platform h = ''darwin'' \<and> existsSync h w ?home then ?home else path best) \<rparr>"
  have "performSetup h w provider inst
      = Inr (?installed, configureJavaEnvironment h w inst (version ?installed) (path ?installed))"
    using assms(1) by (simp add: performSetup_def found Let_def)
  then have "\<exists>w'. performSetup h w provider inst = Inr (?installed, w') \<and> events w' = events w"
    by (simp add: configureJavaEnvironment_events)
  with best top st ok show "\<exists>best \<in> set candidates.
            (\<forall>entry \<in> set candidates. notOlder h (version best) (version entry))
            \<and> stable best = isStableRelease inst
            \<and> checkVersionCompatibility h (jdkVersion inst) (version best) = Inr True
            \<and> (\<exists>w'. performSetup h w provider inst
                       = Inr (\<lparr> version = version best,
                                path = (if platform h = ''darwin''
                                           \<and> existsSync h w (pathJoin h [path best, JAVA_MAC_PATH_SUFFIX])
                                        then pathJoin h [path best, JAVA_MAC_PATH_SUFFIX]
                                        else path best) \<rparr>, w')
                     \<and> events w' = events w)"
    by blast
  show "JdkInstallationBase (linuxHost (inputsOf []) silent) ''Corretto'' = Inr stableInstaller"
    by code_simp
  show "svSatisfies nodeSemver ''11.0.2+9'' ''11''"
    by code_simp
  show "observed (performSetup (linuxHost (inputsOf []) silent) (cacheWorld [''11.0.2-9''])
                  (corretto (linuxHost (inputsOf []) silent)) stableInstaller)
        = Inr (\<lparr> version = ''11.0.2+9'', path = ''/tc/Java_Corretto_jdk/11.0.2-9/x64'' \<rparr>, [])"
    by code_simp
  show "observed (performSetup (linuxHost (inputsOf []) silent)
                  (cacheWorld [''11.0.1-1'', ''11.0.9-1''])
                  (corretto (linuxHost (inputsOf []) silent)) stableInstaller)
        = Inr (\<lparr> version = ''11.0.9+1'', path = ''/tc/Java_Corretto_jdk/11.0.9-1/x64'' \<rparr>, [])"
    by code_simp
qed

theorem cached_jdk_is_reused_witness:
  "getCachedVersionsList (linuxHost (inputsOf []) silent) (cacheWorld [''11.0.1-1'', ''11.0.9-1''])
       stableInstaller
     = Inr [\<lparr> version = ''11.0.1+1'', path = ''/tc/Java_Corretto_jdk/11.0.1-1/x64'', stable = True \<rparr>,
            \<lparr> version = ''11.0.9+1'', path = ''/tc/Java_Corretto_jdk/11.0.9-1/x64'', stable = True \<rparr>]
   \<and> svCompareBuild nodeSemver ''11.0.1+1'' ''11.0.9+1'' = Inr (- 1)
   \<and> (\<exists>w'. performSetup (linuxHost (inputsOf []) silent) (cacheWorld [''11.0.1-1'', ''11.0.9-1''])
               (corretto (linuxHost (inputsOf []) silent)) stableInstaller
             = Inr (\<lparr> version = ''11.0.9+1'', path = ''/tc/Java_Corretto_jdk/11.0.9-1/x64'' \<rparr>, w')
           \<and> events w' = [])"
proof -
  let ?h = "linuxHost (inputsOf []) silent"
  let ?w = "cacheWorld [''11.0.1-1'', ''11.0.9-1'']"
  let ?e1 = "\<lparr> version = ''11.0.1+1'', path = ''/tc/Java_Corretto_jdk/11.0.1-1/x64'', stable = True \<rparr>"
  let ?e9 = "\<lparr> version = ''11.0.9+1'', path = ''/tc/Java_Corretto_jdk/11.0.9-1/x64'', stable = True \<rparr>"
  have lib: "svCompareBuild (semver ?h) = nodeCompareBuild"
    by (simp add: linuxHost_def nodeSemver_def)
  have lib': "svCompareBuild nodeSemver = nodeCompareBuild"
    by (simp add: nodeSemver_def)
  have c11: "nodeCompareBuild ''11.0.1+1'' ''11.0.1+1'' = Inr 0" by code_simp
  have c19: "nodeCompareBuild ''11.0.1+1'' ''11.0.9+1'' = Inr (- 1)" by code_simp
  have c91: "nodeCompareBuild ''11.0.9+1'' ''11.0.1+1'' = Inr 1" by code_simp
  have c99: "nodeCompareBuild ''11.0.9+1'' ''11.0.9+1'' = Inr 0" by code_simp
  have a1: "\<not> shouldCheckLatest stableInstaller" by code_simp
  have a2: "getCachedVersionsList ?h ?w stableInstaller = Inr [?e1, ?e9]" by code_simp
  have a3: "filterE (\<lambda>entry. checkVersionCompatibility ?h (jdkVersion stableInstaller) (version entry))
              [?e1, ?e9] = Inr [?e1, ?e9]" by code_simp
  have a4: "[?e1, ?e9] = filter (\<lambda>entry. path entry \<noteq> []) [?e1, ?e9]" by simp
  have a5: "[?e1, ?e9] \<noteq> []" by simp
  have a6: "\<forall>a \<in> set [?e1, ?e9]. \<forall>b \<in> set [?e1, ?e9].
      \<exists>c. svCompareBuild (semver ?h) (version a) (version b) = Inr c"
    by (simp add: lib c11 c19 c91 c99)
  have a7: "\<forall>a \<in> set [?e1, ?e9]. \<forall>b \<in> set [?e1, ?e9].
      notOlder ?h (version a) (version b) \<or> notOlder ?h (version b) (version a)"
    by (simp add: notOlder_def lib c11 c19 c91 c99)
  have a8: "\<forall>a \<in> set [?e1, ?e9]. \<forall>b \<in> set [?e1, ?e9]. \<forall>c \<in> set [?e1, ?e9].
      notOlder ?h (version a) (version b) \<and> notOlder ?h (version b) (version c)
      \<longrightarrow> notOlder ?h (version a) (version c)"
    by (simp add: notOlder_def lib c11 c19 c91 c99)
  have linux: "platform ?h \<noteq> ''darwin''" by (simp add: linuxHost_def)
  from cached_jdk_is_reused [OF a1 a2 a3 a4 a5 a6 a7 a8, of "corretto ?h"]
  obtain best w' where best: "best \<in> set [?e1, ?e9]"
    and top: "\<forall>entry \<in> set [?e1, ?e9]. notOlder ?h (version best) (version entry)"
    and run: "performSetup ?h ?w (corretto ?h) stableInstaller
       = Inr (\<lparr> version = version best,
                path = (if platform ?h = ''darwin''
                           \<and> existsSync ?h ?w (pathJoin ?h [path best, JAVA_MAC_PATH_SUFFIX])
                        then pathJoin ?h [path best, JAVA_MAC_PATH_SUFFIX]
                        else path best) \<rparr>, w')"
    and quiet: "events w' = events ?w"
    by blast
  from top have "notOlder ?h (version best) ''11.0.9+1''" by simp
  with best have "best = ?e9" by (auto simp: notOlder_def lib c19)
  with run linux have "performSetup ?h ?w (corretto ?h) stableInstaller
       = Inr (\<lparr> version = ''11.0.9+1'', path = ''/tc/Java_Corretto_jdk/11.0.9-1/x64'' \<rparr>, w')"
    by simp
  moreover have "events ?w = []" by code_simp
  ultimately show ?thesis using a2 c19 quiet by (auto simp: lib')
qed


end
